theory Spec2Isabelle
  imports Main "HOL-Library.AList"
begin

section \<open>Python values\<close>

text \<open>
  The two modules (\<^verbatim>\<open>elkarbackup_client.py\<close>, \<^verbatim>\<open>elkarbackup_job.py\<close>) work on the
  dictionaries that \<^verbatim>\<open>response.json()\<close> returns. A field of such a dictionary holds
  \<^verbatim>\<open>None\<close>, a bool, an int, a str or a list of these. Fractional numbers and objects
  nested inside a field are not part of the model: no field of the Client or Job
  resource holds one. A dictionary is an association list in insertion order;
  \<^verbatim>\<open>d[k]\<close> is \<open>map_of d k\<close> (a missing key raises \<^verbatim>\<open>KeyError\<close>), and
  \<^verbatim>\<open>d[k] = v\<close> is \<open>AList.update k v d\<close>, which keeps the position of an existing key
  as a Python dict does.
\<close>

datatype pyval = PNone | PBool bool | PInt int | PStr string | PList "pyval list"

type_synonym pydict = "(string \<times> pyval) list"

datatype pyerror =
    KeyError pyval
  | TypeError
  | ValueError
  | AttributeError
  | JSONDecodeError

text \<open>
  \<^verbatim>\<open>a == b\<close>: a bool is an int in Python (\<^verbatim>\<open>True == 1\<close>), lists compare element by
  element, values of unrelated types are unequal. \<^verbatim>\<open>a != b\<close> is its negation.
\<close>

fun py_eq :: "pyval \<Rightarrow> pyval \<Rightarrow> bool"
  and py_eq_list :: "pyval list \<Rightarrow> pyval list \<Rightarrow> bool" where
  "py_eq PNone PNone = True"
| "py_eq (PBool a) (PBool b) = (a = b)"
| "py_eq (PBool a) (PInt n) = (n = (if a then 1 else 0))"
| "py_eq (PInt n) (PBool a) = (n = (if a then 1 else 0))"
| "py_eq (PInt m) (PInt n) = (m = n)"
| "py_eq (PStr s) (PStr t) = (s = t)"
| "py_eq (PList xs) (PList ys) = py_eq_list xs ys"
| "py_eq _ _ = False"
| "py_eq_list [] [] = True"
| "py_eq_list (x # xs) (y # ys) = (py_eq x y \<and> py_eq_list xs ys)"
| "py_eq_list _ _ = False"

text \<open>
  \<^verbatim>\<open>set(v)\<close>: a list is iterated (an unhashable element, here a nested list, raises
  \<^verbatim>\<open>TypeError\<close>), a str gives its characters, anything else is not iterable. The set
  is kept as the list of its elements; two sets are equal when each element of one
  is \<^verbatim>\<open>==\<close> to an element of the other.
\<close>

fun hashable :: "pyval \<Rightarrow> bool" where
  "hashable (PList xs) = False"
| "hashable _ = True"

fun py_set :: "pyval \<Rightarrow> pyerror + pyval list" where
  "py_set (PList xs) = (if list_all hashable xs then Inr xs else Inl TypeError)"
| "py_set (PStr s) = Inr (map (\<lambda>c. PStr [c]) s)"
| "py_set _ = Inl TypeError"

definition py_set_eq :: "pyval list \<Rightarrow> pyval list \<Rightarrow> bool" where
  "py_set_eq xs ys =
     (list_all (\<lambda>x. list_ex (py_eq x) ys) xs \<and> list_all (\<lambda>y. list_ex (\<lambda>x. py_eq x y) xs) ys)"

text \<open>
  \<^verbatim>\<open>int(v)\<close>: an int is returned, a bool gives 0 or 1, a str is parsed (surrounding
  whitespace, an optional sign, decimal digits with single underscores between
  digits; anything else raises \<^verbatim>\<open>ValueError\<close>), \<^verbatim>\<open>None\<close> and lists raise
  \<^verbatim>\<open>TypeError\<close>. Characters are bytes here, so only ASCII digits and whitespace are
  recognised.
\<close>

definition digit_of :: "char \<Rightarrow> int option" where
  "digit_of c = map_of (zip ''0123456789'' [0, 1, 2, 3, 4, 5, 6, 7, 8, 9]) c"

definition py_isspace :: "char \<Rightarrow> bool" where
  "py_isspace c =
     (c = CHR '' '' \<or> c = CHR 0x09 \<or> c = CHR 0x0A \<or> c = CHR 0x0B \<or> c = CHR 0x0C
      \<or> c = CHR 0x0D \<or> c = CHR 0x1C \<or> c = CHR 0x1D \<or> c = CHR 0x1E \<or> c = CHR 0x1F)"

definition strip :: "string \<Rightarrow> string" where
  "strip s = rev (dropWhile py_isspace (rev (dropWhile py_isspace s)))"

fun digits_acc :: "int \<Rightarrow> string \<Rightarrow> int option" where
  "digits_acc a [] = Some a"
| "digits_acc a (c # cs) =
     (if c = CHR ''_'' then
        (case cs of
           [] \<Rightarrow> None
         | d # ds \<Rightarrow> (case digit_of d of None \<Rightarrow> None | Some v \<Rightarrow> digits_acc (10 * a + v) ds))
      else (case digit_of c of None \<Rightarrow> None | Some v \<Rightarrow> digits_acc (10 * a + v) cs))"

fun parse_digits :: "string \<Rightarrow> int option" where
  "parse_digits [] = None"
| "parse_digits (c # cs) = (case digit_of c of None \<Rightarrow> None | Some v \<Rightarrow> digits_acc v cs)"

definition parse_int :: "string \<Rightarrow> int option" where
  "parse_int s =
     (case strip s of
        [] \<Rightarrow> None
      | c # cs \<Rightarrow>
          if c = CHR ''-'' then map_option uminus (parse_digits cs)
          else if c = CHR ''+'' then parse_digits cs
          else parse_digits (c # cs))"

fun py_int :: "pyval \<Rightarrow> pyerror + int" where
  "py_int (PInt n) = Inr n"
| "py_int (PBool b) = Inr (if b then 1 else 0)"
| "py_int (PStr s) = (case parse_int s of None \<Rightarrow> Inl ValueError | Some n \<Rightarrow> Inr n)"
| "py_int _ = Inl TypeError"

definition getitem :: "pydict \<Rightarrow> string \<Rightarrow> pyerror + pyval" where
  "getitem d k = (case map_of d k of None \<Rightarrow> Inl (KeyError (PStr k)) | Some v \<Rightarrow> Inr v)"

section \<open>The remote service\<close>

text \<open>
  A request names its endpoint; \<^verbatim>\<open>"/api/clients/" + str(id) + ".json"\<close> is
  \<open>ClientJson id\<close>. The connection triple (\<^verbatim>\<open>api_url\<close>, \<^verbatim>\<open>api_user\<close>,
  \<^verbatim>\<open>api_password\<close>) that every function of the source passes on is the server
  argument of the model. A response is truthy when its status is below 400
  (\<open>ok\<close>); its body is a JSON object, an array of objects, or not JSON at all
  (\<open>None\<close>: \<^verbatim>\<open>response.json()\<close> raises).
\<close>

datatype endpoint = ClientsJson | ClientJson pyval | JobsJson | JobJson pyval

datatype request =
    GET endpoint string
  | POST endpoint pydict
  | PUT endpoint pydict
  | DELETE endpoint

datatype body = Object pydict | Array "pydict list"

record response =
  ok :: bool
  json :: "body option"

type_synonym server = "request \<Rightarrow> response"

text \<open>What a Python variable of the modules may hold besides a field value.\<close>

datatype pyobj = Value pyval | ResponseObj response | JsonBody body

text \<open>\<^verbatim>\<open>'id' in new_client\<close>: a key of an object; never an element of an array of objects.\<close>

fun contains_id :: "body \<Rightarrow> bool" where
  "contains_id (Object d) = (map_of d ''id'' \<noteq> None)"
| "contains_id (Array xs) = False"

text \<open>\<^verbatim>\<open>new_client['id']\<close>, evaluated only after \<open>contains_id\<close>.\<close>

fun body_id :: "body \<Rightarrow> pyerror + pyval" where
  "body_id (Object d) = getitem d ''id''"
| "body_id (Array xs) = Inl TypeError"

text \<open>
  Every function that talks to the service returns its value together with the
  requests it issued, in order.
\<close>

definition create :: "endpoint \<Rightarrow> server \<Rightarrow> pydict \<Rightarrow> (pyerror + pyobj) \<times> request list" where
  "create ep srv payload =
     (let response = srv (POST ep payload) in
      (case json response of
         None \<Rightarrow> Inl JSONDecodeError
       | Some new \<Rightarrow>
           if contains_id new then
             (case body_id new of
                Inl e \<Rightarrow> Inl e
              | Inr v \<Rightarrow> (case py_int v of Inl e \<Rightarrow> Inl e | Inr n \<Rightarrow> Inr (Value (PInt n))))
           else Inr (ResponseObj response),
       [POST ep payload]))"

definition create_client :: "server \<Rightarrow> pydict \<Rightarrow> (pyerror + pyobj) \<times> request list" where
  "create_client = create ClientsJson"

definition create_job :: "server \<Rightarrow> pydict \<Rightarrow> (pyerror + pyobj) \<times> request list" where
  "create_job = create JobsJson"

definition delete :: "(pyval \<Rightarrow> endpoint) \<Rightarrow> server \<Rightarrow> pyval \<Rightarrow> pyobj \<times> request list" where
  "delete ep srv i =
     (let response = srv (DELETE (ep i)) in
      (if ok response then Value (PBool True) else ResponseObj response, [DELETE (ep i)]))"

definition delete_client :: "server \<Rightarrow> pyval \<Rightarrow> pyobj \<times> request list" where
  "delete_client = delete ClientJson"

definition delete_job :: "server \<Rightarrow> pyval \<Rightarrow> pyobj \<times> request list" where
  "delete_job = delete JobJson"

definition update :: "(pyval \<Rightarrow> endpoint) \<Rightarrow> server \<Rightarrow> pydict \<Rightarrow> (pyerror + pyobj) \<times> request list" where
  "update ep srv payload =
     (case getitem payload ''id'' of
        Inl e \<Rightarrow> (Inl e, [])
      | Inr i \<Rightarrow>
          (let response = srv (PUT (ep i) payload) in
           (case json response of
              None \<Rightarrow> Inl JSONDecodeError
            | Some new \<Rightarrow>
                if contains_id new then
                  (case body_id new of Inl e \<Rightarrow> Inl e | Inr v \<Rightarrow> Inr (Value v))
                else Inr (ResponseObj response),
            [PUT (ep i) payload])))"

definition update_client :: "server \<Rightarrow> pydict \<Rightarrow> (pyerror + pyobj) \<times> request list" where
  "update_client = update ClientJson"

definition update_job :: "server \<Rightarrow> pydict \<Rightarrow> (pyerror + pyobj) \<times> request list" where
  "update_job = update JobJson"

text \<open>
  The loop \<^verbatim>\<open>for c in clients: if c['name'] == name: return c\<close>, followed by
  \<^verbatim>\<open>return None\<close>.
\<close>

fun scan_name :: "string \<Rightarrow> pydict list \<Rightarrow> pyerror + pydict option" where
  "scan_name nm [] = Inr None"
| "scan_name nm (c # cs) =
     (case getitem c ''name'' of
        Inl e \<Rightarrow> Inl e
      | Inr v \<Rightarrow> if py_eq v (PStr nm) then Inr (Some c) else scan_name nm cs)"

text \<open>
  The three lookups of the source have one body. On an array it is the
  disambiguation; on an object \<^verbatim>\<open>len\<close> counts the keys, \<^verbatim>\<open>clients[0]\<close> is a missing
  key and the loop runs over the keys, which are strings and cannot be indexed by
  \<^verbatim>\<open>'name'\<close>.
\<close>

definition get_by_name :: "endpoint \<Rightarrow> server \<Rightarrow> string \<Rightarrow> (pyerror + pydict option) \<times> request list" where
  "get_by_name ep srv nm =
     (let response = srv (GET ep nm) in
      (case json response of
         None \<Rightarrow> Inl JSONDecodeError
       | Some (Array clients) \<Rightarrow>
           if length clients = 1 then Inr (Some (clients ! 0))
           else if length clients > 0 then scan_name nm clients
           else Inr None
       | Some (Object d) \<Rightarrow>
           if length d = 1 then Inl (KeyError (PInt 0))
           else if length d > 0 then Inl TypeError
           else Inr None,
       [GET ep nm]))"

text \<open>\<open>get_client_by_name\<close> is defined in both modules, with the same text.\<close>

definition get_client_by_name :: "server \<Rightarrow> string \<Rightarrow> (pyerror + pydict option) \<times> request list" where
  "get_client_by_name = get_by_name ClientsJson"

definition get_job_by_name :: "server \<Rightarrow> string \<Rightarrow> (pyerror + pydict option) \<times> request list" where
  "get_job_by_name = get_by_name JobsJson"

section \<open>The field comparisons of \<^verbatim>\<open>run_module\<close>\<close>

text \<open>
  Both modules compare the fetched resource with \<^verbatim>\<open>module.params\<close> by a sequence of
  statements of two shapes:
  \<^verbatim>\<open>
  if client[k] != v:                  if set(client[k]) != set(v):
      client[k] = v                       client[k] = v
      changed = True                      changed = True
  \<close>
  A statement is its key, the shape of its comparison and its right-hand side \<open>v\<close>.
  The right-hand side is evaluated after \<^verbatim>\<open>client[k]\<close> and may itself raise (the Job
  module reads \<^verbatim>\<open>client['id']\<close> there). The state of the sequence is the dictionary
  and the flag \<^verbatim>\<open>changed\<close>.
\<close>

datatype cmp = Plain | AsSet

type_synonym field_stmt = "string \<times> cmp \<times> (pyerror + pyval)"

fun differs :: "cmp \<Rightarrow> pyval \<Rightarrow> pyval \<Rightarrow> pyerror + bool" where
  "differs Plain r v = Inr (\<not> py_eq r v)"
| "differs AsSet r v =
     (case py_set r of
        Inl e \<Rightarrow> Inl e
      | Inr xs \<Rightarrow> (case py_set v of Inl e \<Rightarrow> Inl e | Inr ys \<Rightarrow> Inr (\<not> py_set_eq xs ys)))"

fun exec_stmt :: "field_stmt \<Rightarrow> pydict \<times> bool \<Rightarrow> pyerror + pydict \<times> bool" where
  "exec_stmt (k, c, rhs) (d, changed) =
     (case getitem d k of
        Inl e \<Rightarrow> Inl e
      | Inr r \<Rightarrow>
          (case rhs of
             Inl e \<Rightarrow> Inl e
           | Inr v \<Rightarrow>
               (case differs c r v of
                  Inl e \<Rightarrow> Inl e
                | Inr b \<Rightarrow> if b then Inr (AList.update k v d, True) else Inr (d, changed))))"

fun exec_stmts :: "field_stmt list \<Rightarrow> pydict \<times> bool \<Rightarrow> pyerror + pydict \<times> bool" where
  "exec_stmts [] st = Inr st"
| "exec_stmts (s # ss) st = (case exec_stmt s st of Inl e \<Rightarrow> Inl e | Inr st' \<Rightarrow> exec_stmts ss st')"

section \<open>Results\<close>

text \<open>
  \<^verbatim>\<open>module.exit_json(**result)\<close> and \<^verbatim>\<open>module.fail_json(msg=..., **result)\<close> both end
  the run; an exception that the module does not catch ends it as well.
\<close>

record result =
  changed :: bool
  res_id :: "pyval option"
  api_result :: "pyobj option"

datatype outcome = exit_json result | fail_json string result | raised pyerror

definition result0 :: result where
  "result0 = \<lparr>changed = False, res_id = None, api_result = None\<rparr>"

text \<open>\<^verbatim>\<open>type(id) is int and id != 0\<close>; a bool is not of type int.\<close>

fun is_nonzero_int :: "pyobj \<Rightarrow> bool" where
  "is_nonzero_int (Value (PInt n)) = (n \<noteq> 0)"
| "is_nonzero_int _ = False"

text \<open>\<^verbatim>\<open>type(ok) is bool and ok\<close>.\<close>

fun is_true :: "pyobj \<Rightarrow> bool" where
  "is_true (Value (PBool b)) = b"
| "is_true _ = False"

text \<open>\<^verbatim>\<open>id.json()\<close>: only a response has the method.\<close>

fun call_json :: "pyobj \<Rightarrow> pyerror + body" where
  "call_json (ResponseObj r) = (case json r of None \<Rightarrow> Inl JSONDecodeError | Some b \<Rightarrow> Inr b)"
| "call_json _ = Inl AttributeError"

fun the_value :: "pyobj \<Rightarrow> pyval option" where
  "the_value (Value v) = Some v"
| "the_value _ = None"

section \<open>\<^verbatim>\<open>elkarbackup_client.run_module\<close>\<close>

text \<open>
  \<^verbatim>\<open>module.params\<close> after the argument specification has typed and defaulted it.
\<close>

record client_params =
  description :: string
  is_active :: bool
  max_parallel_jobs :: int
  name :: string
  post_scripts :: "int list"
  pre_scripts :: "int list"
  quota :: int
  rsync_long_args :: string
  rsync_short_args :: string
  ssh_args :: string
  state :: string
  url :: string

definition int_list :: "int list \<Rightarrow> pyval" where
  "int_list xs = PList (map PInt xs)"

definition str_list :: "string list \<Rightarrow> pyval" where
  "str_list xs = PList (map PStr xs)"

text \<open>Lines 222 to 254 of the module, in order.\<close>

definition client_stmts :: "client_params \<Rightarrow> field_stmt list" where
  "client_stmts p =
     [(''description'', Plain, Inr (PStr (description p))),
      (''isActive'', Plain, Inr (PBool (is_active p))),
      (''maxParallelJobs'', Plain, Inr (PInt (max_parallel_jobs p))),
      (''name'', Plain, Inr (PStr (name p))),
      (''postScripts'', AsSet, Inr (int_list (post_scripts p))),
      (''preScripts'', AsSet, Inr (int_list (pre_scripts p))),
      (''quota'', Plain, Inr (PInt (quota p))),
      (''rsyncLongArgs'', Plain, Inr (PStr (rsync_long_args p))),
      (''rsyncShortArgs'', Plain, Inr (PStr (rsync_short_args p))),
      (''sshArgs'', Plain, Inr (PStr (ssh_args p))),
      (''url'', Plain, Inr (PStr (url p)))]"

text \<open>
  Lines 220 to 254: \<^verbatim>\<open>client['quota'] = int(client['quota'])\<close>, then the comparisons.
  The result is the dictionary that an update would send and the flag.
\<close>

definition client_diff :: "client_params \<Rightarrow> pydict \<Rightarrow> pyerror + pydict \<times> bool" where
  "client_diff p client =
     (case getitem client ''quota'' of
        Inl e \<Rightarrow> Inl e
      | Inr q \<Rightarrow>
          (case py_int q of
             Inl e \<Rightarrow> Inl e
           | Inr n \<Rightarrow> exec_stmts (client_stmts p) (AList.update ''quota'' (PInt n) client, False)))"

text \<open>Lines 267 to 279: the dictionary built for a creation.\<close>

definition client_new :: "client_params \<Rightarrow> pydict" where
  "client_new p =
     [(''description'', PStr (description p)),
      (''isActive'', PBool (is_active p)),
      (''maxParallelJobs'', PInt (max_parallel_jobs p)),
      (''name'', PStr (name p)),
      (''preScripts'', int_list (pre_scripts p)),
      (''postScripts'', int_list (post_scripts p)),
      (''quota'', PInt (quota p)),
      (''rsyncLongArgs'', PStr (rsync_long_args p)),
      (''rsyncShortArgs'', PStr (rsync_short_args p)),
      (''sshArgs'', PStr (ssh_args p)),
      (''url'', PStr (url p))]"

text \<open>Lines 255 to 265.\<close>

definition client_apply_update :: "server \<Rightarrow> pydict \<times> bool \<Rightarrow> outcome \<times> request list" where
  "client_apply_update srv st =
     (if snd st then
        (case update_client srv (fst st) of
           (Inl e, t) \<Rightarrow> (raised e, t)
         | (Inr i, t) \<Rightarrow>
             if is_nonzero_int i then
               (exit_json (result0\<lparr>changed := True, res_id := the_value i\<rparr>), t)
             else
               (case call_json i of
                  Inl e \<Rightarrow> (raised e, t)
                | Inr b \<Rightarrow>
                    (fail_json ''Client update failed''
                       (result0\<lparr>changed := False, api_result := Some (JsonBody b)\<rparr>), t)))
      else (exit_json (result0\<lparr>changed := False\<rparr>), []))"

text \<open>Lines 280 to 287.\<close>

definition client_apply_create :: "server \<Rightarrow> pydict \<Rightarrow> outcome \<times> request list" where
  "client_apply_create srv client =
     (case create_client srv client of
        (Inl e, t) \<Rightarrow> (raised e, t)
      | (Inr i, t) \<Rightarrow>
          if is_nonzero_int i then
            (exit_json (result0\<lparr>changed := True, res_id := the_value i\<rparr>), t)
          else
            (fail_json ''Client creation failed''
               (result0\<lparr>changed := False, api_result := Some i\<rparr>), t))"

text \<open>Lines 291 to 297.\<close>

definition client_apply_delete :: "server \<Rightarrow> pydict \<Rightarrow> outcome \<times> request list" where
  "client_apply_delete srv client =
     (case getitem client ''id'' of
        Inl e \<Rightarrow> (raised e, [])
      | Inr i \<Rightarrow>
          (case delete_client srv i of
             (ok', t) \<Rightarrow>
               if is_true ok' then (exit_json (result0\<lparr>changed := True\<rparr>), t)
               else
                 (fail_json ''Client deletion failed''
                    (result0\<lparr>changed := False, api_result := Some ok'\<rparr>), t)))"

text \<open>
  Lines 217 to 301. The argument specification admits only \<^verbatim>\<open>present\<close> and
  \<^verbatim>\<open>absent\<close>; the source falls through to \<^verbatim>\<open>exit_json\<close> for any other state, and
  so does the model.
\<close>

definition client_run_module :: "server \<Rightarrow> client_params \<Rightarrow> outcome \<times> request list" where
  "client_run_module srv p =
     (if state p = ''present'' then
        (case get_client_by_name srv (name p) of
           (Inl e, t) \<Rightarrow> (raised e, t)
         | (Inr (Some client), t) \<Rightarrow>
             (case client_diff p client of
                Inl e \<Rightarrow> (raised e, t)
              | Inr st \<Rightarrow> (case client_apply_update srv st of (out, t') \<Rightarrow> (out, t @ t')))
         | (Inr None, t) \<Rightarrow>
             (case client_apply_create srv (client_new p) of (out, t') \<Rightarrow> (out, t @ t')))
      else if state p = ''absent'' then
        (case get_client_by_name srv (name p) of
           (Inl e, t) \<Rightarrow> (raised e, t)
         | (Inr (Some client), t) \<Rightarrow>
             (case client_apply_delete srv client of (out, t') \<Rightarrow> (out, t @ t'))
         | (Inr None, t) \<Rightarrow> (exit_json (result0\<lparr>changed := False\<rparr>), t))
      else (exit_json result0, []))"

section \<open>\<^verbatim>\<open>elkarbackup_job.run_module\<close>\<close>

text \<open>
  \<^verbatim>\<open>module.params\<close> of the Job module. The fields carry the prefix \<open>job_\<close> where the
  Client module has a parameter of the same name. \<^verbatim>\<open>exclude\<close>, \<^verbatim>\<open>include\<close> and
  \<^verbatim>\<open>notifications_email\<close> default to \<^verbatim>\<open>None\<close>.
\<close>

record job_params =
  backup_location :: int
  client_name :: string
  job_description :: string
  exclude :: "string option"
  "include" :: "string option"
  job_is_active :: bool
  min_notification_level :: int
  job_name :: string
  notifications_email :: "string option"
  notifications_to :: "string list"
  path :: string
  policy :: int
  job_post_scripts :: "int list"
  job_pre_scripts :: "int list"
  token :: string
  job_state :: string
  use_local_permissions :: bool

fun opt_str :: "string option \<Rightarrow> pyval" where
  "opt_str None = PNone"
| "opt_str (Some s) = PStr s"

text \<open>Lines 266 to 313 of the module, in order.\<close>

definition job_stmts :: "job_params \<Rightarrow> pydict \<Rightarrow> field_stmt list" where
  "job_stmts p client =
     [(''backupLocation'', Plain, Inr (PInt (backup_location p))),
      (''client'', Plain, getitem client ''id''),
      (''description'', Plain, Inr (PStr (job_description p))),
      (''exclude'', Plain, Inr (opt_str (exclude p))),
      (''include'', Plain, Inr (opt_str (include p))),
      (''isActive'', Plain, Inr (PBool (job_is_active p))),
      (''minNotificationLevel'', Plain, Inr (PInt (min_notification_level p))),
      (''name'', Plain, Inr (PStr (job_name p))),
      (''notificationsEmail'', Plain, Inr (opt_str (notifications_email p))),
      (''notificationsTo'', AsSet, Inr (str_list (notifications_to p))),
      (''path'', Plain, Inr (PStr (path p))),
      (''policy'', Plain, Inr (PInt (policy p))),
      (''postScripts'', AsSet, Inr (int_list (job_post_scripts p))),
      (''preScripts'', AsSet, Inr (int_list (job_pre_scripts p))),
      (''token'', Plain, Inr (PStr (token p))),
      (''useLocalPermissions'', Plain, Inr (PBool (use_local_permissions p)))]"

definition job_diff :: "job_params \<Rightarrow> pydict \<Rightarrow> pydict \<Rightarrow> pyerror + pydict \<times> bool" where
  "job_diff p client job = exec_stmts (job_stmts p client) (job, False)"

text \<open>Lines 326 to 343: the dictionary built for a creation; it reads \<^verbatim>\<open>client['id']\<close>.\<close>

definition job_new :: "job_params \<Rightarrow> pydict \<Rightarrow> pyerror + pydict" where
  "job_new p client =
     (case getitem client ''id'' of
        Inl e \<Rightarrow> Inl e
      | Inr i \<Rightarrow>
          Inr [(''backupLocation'', PInt (backup_location p)),
               (''client'', i),
               (''description'', PStr (job_description p)),
               (''exclude'', opt_str (exclude p)),
               (''include'', opt_str (include p)),
               (''isActive'', PBool (job_is_active p)),
               (''minNotificationLevel'', PInt (min_notification_level p)),
               (''name'', PStr (job_name p)),
               (''notificationsEmail'', opt_str (notifications_email p)),
               (''notificationsTo'', str_list (notifications_to p)),
               (''path'', PStr (path p)),
               (''policy'', PInt (policy p)),
               (''postScripts'', int_list (job_post_scripts p)),
               (''preScripts'', int_list (job_pre_scripts p)),
               (''token'', PStr (token p)),
               (''useLocalPermissions'', PBool (use_local_permissions p))])"

text \<open>Lines 314 to 324.\<close>

definition job_apply_update :: "server \<Rightarrow> pydict \<times> bool \<Rightarrow> outcome \<times> request list" where
  "job_apply_update srv st =
     (if snd st then
        (case update_job srv (fst st) of
           (Inl e, t) \<Rightarrow> (raised e, t)
         | (Inr i, t) \<Rightarrow>
             if is_nonzero_int i then
               (exit_json (result0\<lparr>changed := True, res_id := the_value i\<rparr>), t)
             else
               (case call_json i of
                  Inl e \<Rightarrow> (raised e, t)
                | Inr b \<Rightarrow>
                    (fail_json ''Job update failed''
                       (result0\<lparr>changed := False, api_result := Some (JsonBody b)\<rparr>), t)))
      else (exit_json (result0\<lparr>changed := False\<rparr>), []))"

text \<open>Lines 344 to 351.\<close>

definition job_apply_create :: "server \<Rightarrow> pydict \<Rightarrow> outcome \<times> request list" where
  "job_apply_create srv job =
     (case create_job srv job of
        (Inl e, t) \<Rightarrow> (raised e, t)
      | (Inr i, t) \<Rightarrow>
          if is_nonzero_int i then
            (exit_json (result0\<lparr>changed := True, res_id := the_value i\<rparr>), t)
          else
            (case call_json i of
               Inl e \<Rightarrow> (raised e, t)
             | Inr b \<Rightarrow>
                 (fail_json ''Job creation failed''
                    (result0\<lparr>changed := False, api_result := Some (JsonBody b)\<rparr>), t)))"

text \<open>Lines 354 to 361.\<close>

definition job_apply_delete :: "server \<Rightarrow> pydict \<Rightarrow> outcome \<times> request list" where
  "job_apply_delete srv job =
     (case getitem job ''id'' of
        Inl e \<Rightarrow> (raised e, [])
      | Inr i \<Rightarrow>
          (case delete_job srv i of
             (ok', t) \<Rightarrow>
               if is_true ok' then (exit_json (result0\<lparr>changed := True\<rparr>), t)
               else
                 (fail_json ''Job deletion failed''
                    (result0\<lparr>changed := False, api_result := Some ok'\<rparr>), t)))"

text \<open>
  Line 261: the dictionary \<^verbatim>\<open>dict(title=..., detail=...)\<close> reported when the client name
  resolves to nothing.
\<close>

definition client_not_found :: "string \<Rightarrow> pydict" where
  "client_not_found nm =
     [(''title'', PStr ''Client name not found''),
      (''detail'', PStr (''Client name '' @ nm @ '' not found''))]"

text \<open>
  Lines 257 to 365. \<^verbatim>\<open>fail_json\<close> ends the run, so nothing after line 262 is reached
  when the client is missing.
\<close>

definition job_run_module :: "server \<Rightarrow> job_params \<Rightarrow> outcome \<times> request list" where
  "job_run_module srv p =
     (if job_state p = ''present'' then
        (case get_client_by_name srv (client_name p) of
           (Inl e, t) \<Rightarrow> (raised e, t)
         | (Inr None, t) \<Rightarrow>
             (fail_json ''Play failed''
                (result0\<lparr>changed := False,
                   api_result := Some (JsonBody (Object (client_not_found (client_name p))))\<rparr>), t)
         | (Inr (Some client), t) \<Rightarrow>
             (case get_job_by_name srv (job_name p) of
                (Inl e, t') \<Rightarrow> (raised e, t @ t')
              | (Inr (Some job), t') \<Rightarrow>
                  (case job_diff p client job of
                     Inl e \<Rightarrow> (raised e, t @ t')
                   | Inr st \<Rightarrow>
                       (case job_apply_update srv st of (out, t'') \<Rightarrow> (out, t @ t' @ t'')))
              | (Inr None, t') \<Rightarrow>
                  (case job_new p client of
                     Inl e \<Rightarrow> (raised e, t @ t')
                   | Inr job \<Rightarrow>
                       (case job_apply_create srv job of (out, t'') \<Rightarrow> (out, t @ t' @ t'')))))
      else if job_state p = ''absent'' then
        (case get_job_by_name srv (job_name p) of
           (Inl e, t) \<Rightarrow> (raised e, t)
         | (Inr (Some job), t) \<Rightarrow>
             (case job_apply_delete srv job of (out, t') \<Rightarrow> (out, t @ t'))
         | (Inr None, t) \<Rightarrow> (exit_json (result0\<lparr>changed := False\<rparr>), t))
      else (exit_json result0, []))"

section \<open>Notions of the specification\<close>

text \<open>
  The listing endpoint \<open>ep\<close> answers the query for \<open>nm\<close> with the array \<open>cs\<close> of
  resources.
\<close>

definition listing :: "endpoint \<Rightarrow> server \<Rightarrow> string \<Rightarrow> pydict list \<Rightarrow> bool" where
  "listing ep srv nm cs \<longleftrightarrow> json (srv (GET ep nm)) = Some (Array cs)"

text \<open>Every listed resource carries a \<^verbatim>\<open>name\<close> field, as the resource schema says.\<close>

definition named :: "pydict list \<Rightarrow> bool" where
  "named cs \<longleftrightarrow> list_all (\<lambda>c. map_of c ''name'' \<noteq> None) cs"

text \<open>The first listed resource whose name is exactly the queried string.\<close>

definition exact_match :: "string \<Rightarrow> pydict list \<Rightarrow> pydict option" where
  "exact_match nm cs = find (\<lambda>c. map_of c ''name'' = Some (PStr nm)) cs"

text \<open>A service whose every answer is a listing of three resources with similar names.\<close>

definition three_names :: "pydict list" where
  "three_names =
     [[(''id'', PInt 1), (''name'', PStr ''Name10'')],
      [(''id'', PInt 2), (''name'', PStr ''name1'')],
      [(''id'', PInt 3), (''name'', PStr ''Name1'')]]"

definition srv_three :: server where
  "srv_three r = \<lparr>ok = True, json = Some (Array three_names)\<rparr>"

text \<open>
  The per-field comparison semantics of the specification: a scalar field of the
  remote resource satisfies the desired value when both are equal as values; a
  set-valued field when both collections are equal as sets. A field that the remote
  resource lacks satisfies nothing.
\<close>

definition scalar_equal :: "pydict \<Rightarrow> string \<Rightarrow> pyval \<Rightarrow> bool" where
  "scalar_equal d k v = (case map_of d k of None \<Rightarrow> False | Some r \<Rightarrow> py_eq r v)"

definition set_equal :: "pydict \<Rightarrow> string \<Rightarrow> pyval \<Rightarrow> bool" where
  "set_equal d k v =
     (case map_of d k of
        None \<Rightarrow> False
      | Some r \<Rightarrow>
          (case py_set r of
             Inl e \<Rightarrow> False
           | Inr xs \<Rightarrow> (case py_set v of Inl e \<Rightarrow> False | Inr ys \<Rightarrow> py_set_eq xs ys)))"

text \<open>The remote field of a statement satisfies the statement's desired value.\<close>

fun field_matches :: "pydict \<Rightarrow> field_stmt \<Rightarrow> bool" where
  "field_matches d (k, Plain, Inr v) = scalar_equal d k v"
| "field_matches d (k, AsSet, Inr v) = set_equal d k v"
| "field_matches d (k, c, Inl e) = False"

text \<open>
  The remote quota satisfies the desired one when its integer reading is the desired
  integer.
\<close>

definition quota_equal :: "pydict \<Rightarrow> int \<Rightarrow> bool" where
  "quota_equal d n = (case map_of d ''quota'' of None \<Rightarrow> False | Some q \<Rightarrow> py_int q = Inr n)"

text \<open>
  A remote Client satisfies the desired specification: every field of the Client
  field set satisfies the desired value under the comparison of its kind.
\<close>

definition client_satisfies :: "client_params \<Rightarrow> pydict \<Rightarrow> bool" where
  "client_satisfies p c \<longleftrightarrow>
     scalar_equal c ''name'' (PStr (name p)) \<and>
     scalar_equal c ''description'' (PStr (description p)) \<and>
     scalar_equal c ''isActive'' (PBool (is_active p)) \<and>
     scalar_equal c ''maxParallelJobs'' (PInt (max_parallel_jobs p)) \<and>
     quota_equal c (quota p) \<and>
     scalar_equal c ''rsyncShortArgs'' (PStr (rsync_short_args p)) \<and>
     scalar_equal c ''rsyncLongArgs'' (PStr (rsync_long_args p)) \<and>
     scalar_equal c ''sshArgs'' (PStr (ssh_args p)) \<and>
     scalar_equal c ''url'' (PStr (url p)) \<and>
     set_equal c ''preScripts'' (int_list (pre_scripts p)) \<and>
     set_equal c ''postScripts'' (int_list (post_scripts p))"

text \<open>
  A nullable field of the specification: an absent field and the empty string stand
  for \<^verbatim>\<open>null\<close>. The remote field satisfies the desired value when both stand for
  \<^verbatim>\<open>null\<close> or both are equal as values.
\<close>

definition is_null :: "pyval \<Rightarrow> bool" where
  "is_null v \<longleftrightarrow> v = PNone \<or> v = PStr ''''"

definition nullable_equal :: "pydict \<Rightarrow> string \<Rightarrow> pyval \<Rightarrow> bool" where
  "nullable_equal d k v =
     (case map_of d k of None \<Rightarrow> is_null v | Some r \<Rightarrow> (is_null r \<and> is_null v) \<or> py_eq r v)"

text \<open>
  A remote Job satisfies the desired specification, its \<^verbatim>\<open>client\<close> field holding the
  identifier of the resolved Client: \<^verbatim>\<open>exclude\<close>, \<^verbatim>\<open>include\<close> and \<^verbatim>\<open>notificationsEmail\<close>
  are the nullable fields.
\<close>

definition job_satisfies :: "job_params \<Rightarrow> pydict \<Rightarrow> pydict \<Rightarrow> bool" where
  "job_satisfies p client j \<longleftrightarrow>
     scalar_equal j ''name'' (PStr (job_name p)) \<and>
     (case map_of client ''id'' of None \<Rightarrow> False | Some i \<Rightarrow> scalar_equal j ''client'' i) \<and>
     scalar_equal j ''description'' (PStr (job_description p)) \<and>
     scalar_equal j ''path'' (PStr (path p)) \<and>
     scalar_equal j ''isActive'' (PBool (job_is_active p)) \<and>
     nullable_equal j ''exclude'' (opt_str (exclude p)) \<and>
     nullable_equal j ''include'' (opt_str (include p)) \<and>
     scalar_equal j ''minNotificationLevel'' (PInt (min_notification_level p)) \<and>
     nullable_equal j ''notificationsEmail'' (opt_str (notifications_email p)) \<and>
     set_equal j ''notificationsTo'' (str_list (notifications_to p)) \<and>
     scalar_equal j ''policy'' (PInt (policy p)) \<and>
     scalar_equal j ''backupLocation'' (PInt (backup_location p)) \<and>
     scalar_equal j ''token'' (PStr (token p)) \<and>
     scalar_equal j ''useLocalPermissions'' (PBool (use_local_permissions p)) \<and>
     set_equal j ''preScripts'' (int_list (job_pre_scripts p)) \<and>
     set_equal j ''postScripts'' (int_list (job_post_scripts p))"

text \<open>
  The same with the nullable fields compared as scalar fields are, by value: a remote
  empty string does not match a desired \<^verbatim>\<open>null\<close>.
\<close>

definition job_matches :: "job_params \<Rightarrow> pydict \<Rightarrow> pydict \<Rightarrow> bool" where
  "job_matches p client j \<longleftrightarrow>
     scalar_equal j ''name'' (PStr (job_name p)) \<and>
     (case map_of client ''id'' of None \<Rightarrow> False | Some i \<Rightarrow> scalar_equal j ''client'' i) \<and>
     scalar_equal j ''description'' (PStr (job_description p)) \<and>
     scalar_equal j ''path'' (PStr (path p)) \<and>
     scalar_equal j ''isActive'' (PBool (job_is_active p)) \<and>
     scalar_equal j ''exclude'' (opt_str (exclude p)) \<and>
     scalar_equal j ''include'' (opt_str (include p)) \<and>
     scalar_equal j ''minNotificationLevel'' (PInt (min_notification_level p)) \<and>
     scalar_equal j ''notificationsEmail'' (opt_str (notifications_email p)) \<and>
     set_equal j ''notificationsTo'' (str_list (notifications_to p)) \<and>
     scalar_equal j ''policy'' (PInt (policy p)) \<and>
     scalar_equal j ''backupLocation'' (PInt (backup_location p)) \<and>
     scalar_equal j ''token'' (PStr (token p)) \<and>
     scalar_equal j ''useLocalPermissions'' (PBool (use_local_permissions p)) \<and>
     set_equal j ''preScripts'' (int_list (job_pre_scripts p)) \<and>
     set_equal j ''postScripts'' (int_list (job_post_scripts p))"

text \<open>
  The fields of the two field sets that are compared by value, with their desired
  values; the \<^verbatim>\<open>client\<close> of a Job is the identifier \<open>ci\<close> of the resolved Client.
\<close>

definition client_scalars :: "client_params \<Rightarrow> (string \<times> pyval) list" where
  "client_scalars p =
     [(''name'', PStr (name p)), (''description'', PStr (description p)),
      (''isActive'', PBool (is_active p)), (''maxParallelJobs'', PInt (max_parallel_jobs p)),
      (''quota'', PInt (quota p)), (''rsyncShortArgs'', PStr (rsync_short_args p)),
      (''rsyncLongArgs'', PStr (rsync_long_args p)), (''sshArgs'', PStr (ssh_args p)),
      (''url'', PStr (url p))]"

definition job_scalars :: "job_params \<Rightarrow> pyval \<Rightarrow> (string \<times> pyval) list" where
  "job_scalars q ci =
     [(''name'', PStr (job_name q)), (''client'', ci),
      (''description'', PStr (job_description q)), (''path'', PStr (path q)),
      (''isActive'', PBool (job_is_active q)), (''exclude'', opt_str (exclude q)),
      (''include'', opt_str (include q)),
      (''minNotificationLevel'', PInt (min_notification_level q)),
      (''notificationsEmail'', opt_str (notifications_email q)),
      (''policy'', PInt (policy q)), (''backupLocation'', PInt (backup_location q)),
      (''token'', PStr (token q)), (''useLocalPermissions'', PBool (use_local_permissions q))]"

text \<open>
  The observation of the remote state: the listing for \<open>nm\<close> holds the resources \<open>cs\<close>
  (each with a name when there are several), of which the disambiguation policy of
  the specification selects \<open>x\<close>: the only one, else the first with exactly the
  queried name, else none.
\<close>

definition located :: "string \<Rightarrow> pydict list \<Rightarrow> pydict option" where
  "located nm cs = (if length cs = 1 then Some (hd cs) else exact_match nm cs)"

definition observes :: "endpoint \<Rightarrow> server \<Rightarrow> string \<Rightarrow> pydict list \<Rightarrow> pydict option \<Rightarrow> bool" where
  "observes ep srv nm cs x \<longleftrightarrow>
     listing ep srv nm cs \<and> (length cs = 1 \<or> named cs) \<and> located nm cs = x"

text \<open>
  The service accepts a create or update request: its answer is a JSON object whose
  \<^verbatim>\<open>id\<close> is the non-zero integer \<open>n\<close>.
\<close>

definition accepts :: "server \<Rightarrow> request \<Rightarrow> int \<Rightarrow> bool" where
  "accepts srv req n \<longleftrightarrow>
     (case json (srv req) of
        None \<Rightarrow> False
      | Some (Array xs) \<Rightarrow> False
      | Some (Object b) \<Rightarrow> map_of b ''id'' = Some (PInt n) \<and> n \<noteq> 0)"

text \<open>
  A stored resource is well formed when it carries every field of its field set, the
  set-valued ones holding collections of scalars and the Client quota something that
  reads as an integer.
\<close>

definition has_field :: "pydict \<Rightarrow> string \<Rightarrow> bool" where
  "has_field d k \<longleftrightarrow> map_of d k \<noteq> None"

definition is_collection :: "pyval \<Rightarrow> bool" where
  "is_collection v = (case py_set v of Inl e \<Rightarrow> False | Inr xs \<Rightarrow> True)"

definition has_collection :: "pydict \<Rightarrow> string \<Rightarrow> bool" where
  "has_collection d k = (case map_of d k of None \<Rightarrow> False | Some r \<Rightarrow> is_collection r)"

definition has_quota :: "pydict \<Rightarrow> bool" where
  "has_quota d =
     (case map_of d ''quota'' of
        None \<Rightarrow> False
      | Some r \<Rightarrow> (case py_int r of Inl e \<Rightarrow> False | Inr n \<Rightarrow> True))"

definition client_wellformed :: "pydict \<Rightarrow> bool" where
  "client_wellformed c \<longleftrightarrow>
     has_field c ''name'' \<and> has_field c ''description'' \<and> has_field c ''isActive'' \<and>
     has_field c ''maxParallelJobs'' \<and> has_quota c \<and> has_field c ''rsyncShortArgs'' \<and>
     has_field c ''rsyncLongArgs'' \<and> has_field c ''sshArgs'' \<and> has_field c ''url'' \<and>
     has_collection c ''preScripts'' \<and> has_collection c ''postScripts''"

definition job_wellformed :: "pydict \<Rightarrow> bool" where
  "job_wellformed j \<longleftrightarrow>
     has_field j ''name'' \<and> has_field j ''client'' \<and> has_field j ''description'' \<and>
     has_field j ''path'' \<and> has_field j ''isActive'' \<and> has_field j ''exclude'' \<and>
     has_field j ''include'' \<and> has_field j ''minNotificationLevel'' \<and>
     has_field j ''notificationsEmail'' \<and> has_collection j ''notificationsTo'' \<and>
     has_field j ''policy'' \<and> has_field j ''backupLocation'' \<and> has_field j ''token'' \<and>
     has_field j ''useLocalPermissions'' \<and> has_collection j ''preScripts'' \<and>
     has_collection j ''postScripts''"

text \<open>The remote field that a comparison statement reads is there and can be compared.\<close>

fun comparable :: "pydict \<Rightarrow> field_stmt \<Rightarrow> bool" where
  "comparable d (k, Plain, Inr v) = has_field d k"
| "comparable d (k, AsSet, Inr v) = (has_collection d k \<and> is_collection v)"
| "comparable d (k, c, Inl e) = False"

section \<open>Example data\<close>

text \<open>The task of the module's own \<^verbatim>\<open>EXAMPLES\<close> section.\<close>

definition example_client :: client_params where
  "example_client =
     \<lparr>description = ''Description for Name1'', is_active = False, max_parallel_jobs = 4,
      name = ''Name1'', post_scripts = [2], pre_scripts = [1, 2], quota = 20000,
      rsync_long_args = ''--longarg'', rsync_short_args = ''-fGE'', ssh_args = ''-P 1000'',
      state = ''present'', url = ''name1.example.com''\<rparr>"

text \<open>
  A stored Client that already matches it: the scripts are listed in another order
  and the quota is serialised as a string.
\<close>

definition remote_client :: pydict where
  "remote_client =
     [(''id'', PInt 7), (''name'', PStr ''Name1''),
      (''description'', PStr ''Description for Name1''), (''isActive'', PBool False),
      (''maxParallelJobs'', PInt 4), (''quota'', PStr ''20000''),
      (''rsyncShortArgs'', PStr ''-fGE''), (''rsyncLongArgs'', PStr ''--longarg''),
      (''sshArgs'', PStr ''-P 1000''), (''url'', PStr ''name1.example.com''),
      (''preScripts'', int_list [2, 1]), (''postScripts'', int_list [2])]"

definition example_job :: job_params where
  "example_job =
     \<lparr>backup_location = 1, client_name = ''Name1'',
      job_description = ''Test description for job1'', exclude = None,
      include = Some ''includetext'', job_is_active = False, min_notification_level = 0,
      job_name = ''job1'', notifications_email = Some ''testjob@example.com'',
      notifications_to = [''admin'', ''owner'', ''email''], path = ''/backup'', policy = 1,
      job_post_scripts = [1, 2], job_pre_scripts = [1], token = ''testoken'',
      job_state = ''present'', use_local_permissions = True\<rparr>"

text \<open>A stored Job of Client 7 that already matches it.\<close>

definition remote_job :: pydict where
  "remote_job =
     [(''id'', PInt 3), (''name'', PStr ''job1''), (''client'', PInt 7),
      (''description'', PStr ''Test description for job1''), (''path'', PStr ''/backup''),
      (''isActive'', PBool False), (''exclude'', PNone), (''include'', PStr ''includetext''),
      (''minNotificationLevel'', PInt 0),
      (''notificationsEmail'', PStr ''testjob@example.com''),
      (''notificationsTo'', str_list [''owner'', ''admin'', ''email'']),
      (''policy'', PInt 1), (''backupLocation'', PInt 1), (''token'', PStr ''testoken''),
      (''useLocalPermissions'', PBool True),
      (''preScripts'', int_list [1]), (''postScripts'', int_list [2, 1])]"

text \<open>
  A service that lists the clients \<open>cs\<close> and the jobs \<open>js\<close> for every name and answers
  every other request with \<open>w\<close>.
\<close>

fun example_srv :: "pydict list \<Rightarrow> pydict list \<Rightarrow> response \<Rightarrow> server" where
  "example_srv cs js w (GET ClientsJson nm) = \<lparr>ok = True, json = Some (Array cs)\<rparr>"
| "example_srv cs js w (GET JobsJson nm) = \<lparr>ok = True, json = Some (Array js)\<rparr>"
| "example_srv cs js w r = w"

text \<open>The answer to a successful write, and the error answer of the service.\<close>

definition written :: "int \<Rightarrow> response" where
  "written n = \<lparr>ok = True, json = Some (Object [(''id'', PInt n)])\<rparr>"

definition api_error :: response where
  "api_error =
     \<lparr>ok = False,
      json = Some (Object [(''title'', PStr ''An error occurred''),
                           (''detail'', PStr ''Script 1 is not a client pre script'')])\<rparr>"

text \<open>The stored Client with an outdated description.\<close>

definition stale_client :: pydict where
  "stale_client = AList.update ''description'' (PStr ''old'') remote_client"

text \<open>What an update of it sends.\<close>

definition stale_client_payload :: pydict where
  "stale_client_payload =
     AList.update ''description'' (PStr ''Description for Name1'')
       (AList.update ''quota'' (PInt 20000) stale_client)"

text \<open>The stored Job whose \<^verbatim>\<open>exclude\<close> is the empty string instead of \<^verbatim>\<open>null\<close>.\<close>

definition sentinel_job :: pydict where
  "sentinel_job = AList.update ''exclude'' (PStr '''') remote_job"

text \<open>The stored Client whose \<^verbatim>\<open>maxParallelJobs\<close> is serialised as a string.\<close>

definition string_jobs_client :: pydict where
  "string_jobs_client = AList.update ''maxParallelJobs'' (PStr ''4'') remote_client"

text \<open>
  The error of the specification's wording, with the client name between single
  quotes (the character \<open>0x27\<close>).
\<close>

definition client_not_found_quoted :: "string \<Rightarrow> pydict" where
  "client_not_found_quoted nm =
     [(''title'', PStr ''Client name not found''),
      (''detail'', PStr (''Client name '' @ [CHR 0x27] @ nm @ [CHR 0x27] @ '' not found''))]"



text \<open>The stored Client with an outdated description and the quota serialised as an integer.\<close>

definition stale_int_client :: pydict where
  "stale_int_client = AList.update ''quota'' (PInt 20000) stale_client"

text \<open>What a creation of the example Client, and of the example Job for Client 7, sends.\<close>

definition example_client_payload :: pydict where
  "example_client_payload =
     [(''description'', PStr ''Description for Name1''), (''isActive'', PBool False),
      (''maxParallelJobs'', PInt 4), (''name'', PStr ''Name1''),
      (''preScripts'', int_list [1, 2]), (''postScripts'', int_list [2]),
      (''quota'', PInt 20000), (''rsyncLongArgs'', PStr ''--longarg''),
      (''rsyncShortArgs'', PStr ''-fGE''), (''sshArgs'', PStr ''-P 1000''),
      (''url'', PStr ''name1.example.com'')]"

definition example_job_payload :: pydict where
  "example_job_payload =
     [(''backupLocation'', PInt 1), (''client'', PInt 7),
      (''description'', PStr ''Test description for job1''), (''exclude'', PNone),
      (''include'', PStr ''includetext''), (''isActive'', PBool False),
      (''minNotificationLevel'', PInt 0), (''name'', PStr ''job1''),
      (''notificationsEmail'', PStr ''testjob@example.com''),
      (''notificationsTo'', str_list [''admin'', ''owner'', ''email'']),
      (''path'', PStr ''/backup''), (''policy'', PInt 1),
      (''postScripts'', int_list [1, 2]), (''preScripts'', int_list [1]),
      (''token'', PStr ''testoken''), (''useLocalPermissions'', PBool True)]"

section \<open>Properties\<close>

subsection \<open>Python values\<close>

lemma py_eq_list_refl: "(\<And>x. x \<in> set xs \<Longrightarrow> py_eq x x) \<Longrightarrow> py_eq_list xs xs"
  by (induction xs) auto

lemma py_eq_refl [simp]: "py_eq v v"
  by (induction v) (auto intro: py_eq_list_refl)

lemma py_eq_PStr [simp]: "py_eq v (PStr s) \<longleftrightarrow> v = PStr s"
  by (cases v) auto

lemma getitem_simps:
  "map_of d k = None \<Longrightarrow> getitem d k = Inl (KeyError (PStr k))"
  "map_of d k = Some v \<Longrightarrow> getitem d k = Inr v"
  by (simp_all add: getitem_def)

lemma py_set_eq_refl: "py_set_eq xs xs"
  unfolding py_set_eq_def list_all_iff list_ex_iff using py_eq_refl by blast



lemma py_set_int_list: "py_set (int_list xs) = Inr (map PInt xs)"
  by (simp add: int_list_def list_all_iff)

lemma py_set_str_list: "py_set (str_list xs) = Inr (map PStr xs)"
  by (simp add: str_list_def list_all_iff)

subsection \<open>Lookup by name\<close>

lemma scan_name_find:
  "\<forall>c\<in>set cs. map_of c ''name'' \<noteq> None \<Longrightarrow>
   scan_name nm cs = Inr (find (\<lambda>c. map_of c ''name'' = Some (PStr nm)) cs)"
  by (induction cs) (auto simp: getitem_def)

lemma get_by_name_trace: "snd (get_by_name ep srv nm) = [GET ep nm]"
  by (simp add: get_by_name_def Let_def)

lemma get_by_name_one:
  "json (srv (GET ep nm)) = Some (Array [c]) \<Longrightarrow> fst (get_by_name ep srv nm) = Inr (Some c)"
  by (simp add: get_by_name_def Let_def)

lemma get_by_name_none:
  "json (srv (GET ep nm)) = Some (Array []) \<Longrightarrow> fst (get_by_name ep srv nm) = Inr None"
  by (simp add: get_by_name_def Let_def)

lemma get_by_name_many:
  "json (srv (GET ep nm)) = Some (Array cs) \<Longrightarrow> 1 < length cs \<Longrightarrow>
   fst (get_by_name ep srv nm) = scan_name nm cs"
  by (simp add: get_by_name_def Let_def)

lemma get_by_name_array:
  assumes "json (srv (GET ep nm)) = Some (Array cs)"
  shows "length cs = 1 \<Longrightarrow> fst (get_by_name ep srv nm) = Inr (Some (hd cs))"
    and "1 < length cs \<Longrightarrow> \<forall>c\<in>set cs. map_of c ''name'' \<noteq> None \<Longrightarrow>
         fst (get_by_name ep srv nm) = Inr (find (\<lambda>c. map_of c ''name'' = Some (PStr nm)) cs)"
    and "cs = [] \<Longrightarrow> fst (get_by_name ep srv nm) = Inr None"
proof -
  show "fst (get_by_name ep srv nm) = Inr (Some (hd cs))" if "length cs = 1"
  proof -
    from that obtain c where "cs = [c]" by (cases cs) auto
    with assms show ?thesis by (simp add: get_by_name_one)
  qed
  show "fst (get_by_name ep srv nm) = Inr (find (\<lambda>c. map_of c ''name'' = Some (PStr nm)) cs)"
    if "1 < length cs" "\<forall>c\<in>set cs. map_of c ''name'' \<noteq> None"
    using that assms by (simp add: get_by_name_many scan_name_find)
  show "fst (get_by_name ep srv nm) = Inr None" if "cs = []"
    using that assms by (simp add: get_by_name_none)
qed

text \<open>
  Claim C3. For the lookup of a Client and of a Job alike: when the listing holds
  exactly one resource, that resource is returned; when it holds more than one
  (each with a name), the first resource whose name is exactly the queried string
  is returned, or none when no name is equal; when it is empty, none is returned.
\<close>

theorem lookup_disambiguation:
  "(listing ClientsJson srv nm cs \<longrightarrow>
      (length cs = 1 \<longrightarrow> fst (get_client_by_name srv nm) = Inr (Some (hd cs))) \<and>
      (1 < length cs \<and> named cs \<longrightarrow> fst (get_client_by_name srv nm) = Inr (exact_match nm cs)) \<and>
      (cs = [] \<longrightarrow> fst (get_client_by_name srv nm) = Inr None)) \<and>
   (listing JobsJson srv nm js \<longrightarrow>
      (length js = 1 \<longrightarrow> fst (get_job_by_name srv nm) = Inr (Some (hd js))) \<and>
      (1 < length js \<and> named js \<longrightarrow> fst (get_job_by_name srv nm) = Inr (exact_match nm js)) \<and>
      (js = [] \<longrightarrow> fst (get_job_by_name srv nm) = Inr None))"
  unfolding listing_def named_def exact_match_def get_client_by_name_def get_job_by_name_def
    list_all_iff
  using get_by_name_array by blast

theorem lookup_disambiguation_witness:
  "listing ClientsJson srv_three ''Name1'' three_names \<and> 1 < length three_names
   \<and> named three_names
   \<and> fst (get_client_by_name srv_three ''Name1'') =
       Inr (Some [(''id'', PInt 3), (''name'', PStr ''Name1'')])
   \<and> listing JobsJson srv_three ''Name2'' three_names
   \<and> fst (get_job_by_name srv_three ''Name2'') = Inr None"
  using lookup_disambiguation [of srv_three "''Name1''" three_names three_names]
    lookup_disambiguation [of srv_three "''Name2''" three_names three_names]
  by (simp add: listing_def named_def exact_match_def srv_three_def three_names_def)

subsection \<open>The comparison statements\<close>

lemma differs_same:
  "differs c r v = Inr b \<Longrightarrow> differs c v v = Inr False"
  by (cases c) (auto simp: py_set_eq_refl split: sum.splits)

lemma field_matches_iff:
  "field_matches d (k, c, rhs) \<longleftrightarrow>
     (\<exists>r v. map_of d k = Some r \<and> rhs = Inr v \<and> differs c r v = Inr False)"
  by (cases c; cases rhs)
     (auto simp: scalar_equal_def set_equal_def split: option.splits sum.splits)

lemma field_matches_cong:
  "map_of d' (fst s) = map_of d (fst s) \<Longrightarrow> field_matches d' s = field_matches d s"
  by (cases s) (simp add: field_matches_iff)

lemma exec_stmt_matches:
  "field_matches d s \<Longrightarrow> exec_stmt s (d, ch) = Inr (d, ch)"
  by (cases s) (auto simp: field_matches_iff getitem_def)

lemma exec_stmt_unchanged:
  assumes "exec_stmt s (d, ch) = Inr (d', False)"
  shows "d' = d \<and> \<not> ch \<and> field_matches d s"
  using assms
  by (cases s)
     (auto simp: field_matches_iff getitem_def split: option.splits sum.splits if_splits)

lemma exec_stmt_changed:
  "exec_stmt s (d, True) = Inr (d', ch') \<Longrightarrow> ch'"
  by (cases s) (auto simp: getitem_def split: option.splits sum.splits if_splits)

lemma exec_stmt_other_key:
  "exec_stmt s (d, ch) = Inr (d', ch') \<Longrightarrow> k \<noteq> fst s \<Longrightarrow> map_of d' k = map_of d k"
  by (cases s)
     (auto simp: getitem_def update_conv' split: option.splits sum.splits if_splits)

lemma exec_stmt_establishes:
  "exec_stmt s (d, ch) = Inr (d', ch') \<Longrightarrow> field_matches d' s"
  by (cases s)
     (auto simp: field_matches_iff getitem_def update_conv' differs_same
           split: option.splits sum.splits if_splits)

lemma exec_stmt_differs:
  "map_of d k = Some r \<Longrightarrow> differs c r v = Inr True \<Longrightarrow>
   exec_stmt (k, c, Inr v) (d, ch) = Inr (AList.update k v d, True)"
  by (simp add: getitem_def)

lemma exec_stmts_append:
  "exec_stmts (xs @ ys) st =
     (case exec_stmts xs st of Inl e \<Rightarrow> Inl e | Inr st' \<Rightarrow> exec_stmts ys st')"
  by (induction xs arbitrary: st) (auto split: sum.splits)

lemma exec_stmts_matches:
  "list_all (field_matches d) ss \<Longrightarrow> exec_stmts ss (d, ch) = Inr (d, ch)"
  by (induction ss) (auto simp: exec_stmt_matches)

lemma exec_stmts_changed:
  "exec_stmts ss (d, True) = Inr (d', ch') \<Longrightarrow> ch'"
proof (induction ss arbitrary: d)
  case Nil
  then show ?case by simp
next
  case (Cons s ss)
  from Cons.prems obtain d1 ch1 where 1: "exec_stmt s (d, True) = Inr (d1, ch1)"
    and 2: "exec_stmts ss (d1, ch1) = Inr (d', ch')"
    by (auto split: sum.splits)
  from 1 have ch1 by (rule exec_stmt_changed)
  with 2 Cons.IH show ?case by simp
qed

lemma exec_stmts_unchanged:
  "exec_stmts ss (d, ch) = Inr (d', False) \<Longrightarrow> d' = d \<and> \<not> ch \<and> list_all (field_matches d) ss"
proof (induction ss arbitrary: d ch)
  case Nil
  then show ?case by simp
next
  case (Cons s ss)
  from Cons.prems obtain d1 ch1 where 1: "exec_stmt s (d, ch) = Inr (d1, ch1)"
    and 2: "exec_stmts ss (d1, ch1) = Inr (d', False)"
    by (auto split: sum.splits)
  from Cons.IH [OF 2] have 3: "d' = d1" "\<not> ch1" "list_all (field_matches d1) ss" by simp_all
  from 1 3(2) have "exec_stmt s (d, ch) = Inr (d1, False)" by simp
  then have "d1 = d \<and> \<not> ch \<and> field_matches d s" by (rule exec_stmt_unchanged)
  with 3 show ?case by simp
qed

lemma exec_stmts_unchanged_iff:
  "exec_stmts ss (d, False) = Inr (d', False) \<longleftrightarrow> d' = d \<and> list_all (field_matches d) ss"
proof
  assume "exec_stmts ss (d, False) = Inr (d', False)"
  then show "d' = d \<and> list_all (field_matches d) ss"
    using exec_stmts_unchanged [of ss d False d'] by simp
next
  assume "d' = d \<and> list_all (field_matches d) ss"
  then show "exec_stmts ss (d, False) = Inr (d', False)"
    by (simp add: exec_stmts_matches)
qed

lemma exec_stmts_other_key:
  "exec_stmts ss (d, ch) = Inr (d', ch') \<Longrightarrow> k \<notin> fst ` set ss \<Longrightarrow> map_of d' k = map_of d k"
proof (induction ss arbitrary: d ch)
  case Nil
  then show ?case by simp
next
  case (Cons s ss)
  from Cons.prems(1) obtain d1 ch1 where 1: "exec_stmt s (d, ch) = Inr (d1, ch1)"
    and 2: "exec_stmts ss (d1, ch1) = Inr (d', ch')"
    by (auto split: sum.splits)
  from Cons.prems(2) have k: "k \<noteq> fst s" "k \<notin> fst ` set ss" by auto
  from Cons.IH [OF 2 k(2)] exec_stmt_other_key [OF 1 k(1)] show ?case by simp
qed

lemma exec_stmts_establishes:
  "exec_stmts ss (d, ch) = Inr (d', ch') \<Longrightarrow> distinct (map fst ss) \<Longrightarrow>
   list_all (field_matches d') ss"
proof (induction ss arbitrary: d ch)
  case Nil
  then show ?case by simp
next
  case (Cons s ss)
  from Cons.prems(1) obtain d1 ch1 where 1: "exec_stmt s (d, ch) = Inr (d1, ch1)"
    and 2: "exec_stmts ss (d1, ch1) = Inr (d', ch')"
    by (auto split: sum.splits)
  from Cons.prems(2) have k: "fst s \<notin> fst ` set ss" "distinct (map fst ss)" by auto
  have "map_of d' (fst s) = map_of d1 (fst s)"
    using exec_stmts_other_key [OF 2 k(1)] .
  then have "field_matches d' s = field_matches d1 s" by (rule field_matches_cong)
  then have "field_matches d' s"
    using exec_stmt_establishes [OF 1] by simp
  with Cons.IH [OF 2 k(2)] show ?case by simp
qed

lemma exec_stmts_single_change:
  assumes ss: "ss = pre @ (k, c, Inr v) # post"
    and dist: "distinct (map fst ss)"
    and pre: "list_all (field_matches d) pre"
    and post: "list_all (field_matches d) post"
    and r: "map_of d k = Some r" "differs c r v = Inr True"
  shows "exec_stmts ss (d, False) = Inr (AList.update k v d, True)"
proof -
  have "list_all (field_matches (AList.update k v d)) post"
    unfolding list_all_iff
  proof
    fix s assume s: "s \<in> set post"
    with dist ss have "fst s \<noteq> k" by force
    then have "map_of (AList.update k v d) (fst s) = map_of d (fst s)"
      by (simp add: update_conv')
    then have "field_matches (AList.update k v d) s = field_matches d s"
      by (rule field_matches_cong)
    with post s show "field_matches (AList.update k v d) s"
      by (simp add: list_all_iff)
  qed
  then show ?thesis
    unfolding ss using pre r
    by (simp add: exec_stmts_append exec_stmts_matches getitem_def)
qed

subsection \<open>Satisfaction of the desired specification\<close>

lemma scalar_equal_coerced:
  "k \<noteq> ''quota'' \<Longrightarrow> scalar_equal (AList.update ''quota'' q d) k v = scalar_equal d k v"
  by (simp add: scalar_equal_def update_conv')

lemma set_equal_coerced:
  "k \<noteq> ''quota'' \<Longrightarrow> set_equal (AList.update ''quota'' q d) k v = set_equal d k v"
  by (simp add: set_equal_def update_conv')

lemma quota_coerced:
  "scalar_equal (AList.update ''quota'' (PInt n) d) ''quota'' (PInt m) \<longleftrightarrow> n = m"
  by (simp add: scalar_equal_def update_conv')

lemma client_stmts_matches:
  "list_all (field_matches (AList.update ''quota'' (PInt n) c)) (client_stmts p) \<longleftrightarrow>
     n = quota p \<and>
     scalar_equal c ''name'' (PStr (name p)) \<and>
     scalar_equal c ''description'' (PStr (description p)) \<and>
     scalar_equal c ''isActive'' (PBool (is_active p)) \<and>
     scalar_equal c ''maxParallelJobs'' (PInt (max_parallel_jobs p)) \<and>
     scalar_equal c ''rsyncShortArgs'' (PStr (rsync_short_args p)) \<and>
     scalar_equal c ''rsyncLongArgs'' (PStr (rsync_long_args p)) \<and>
     scalar_equal c ''sshArgs'' (PStr (ssh_args p)) \<and>
     scalar_equal c ''url'' (PStr (url p)) \<and>
     set_equal c ''preScripts'' (int_list (pre_scripts p)) \<and>
     set_equal c ''postScripts'' (int_list (post_scripts p))"
  unfolding client_stmts_def
  by (simp add: scalar_equal_coerced set_equal_coerced quota_coerced) blast

lemma client_diff_coerce:
  "map_of c ''quota'' = Some q \<Longrightarrow> py_int q = Inr n \<Longrightarrow>
   client_diff p c = exec_stmts (client_stmts p) (AList.update ''quota'' (PInt n) c, False)"
  by (simp add: client_diff_def getitem_def)

lemma client_diff_unchanged_iff:
  "(\<exists>c'. client_diff p c = Inr (c', False)) \<longleftrightarrow> client_satisfies p c"
proof (cases "map_of c ''quota''")
  case None
  then show ?thesis
    by (simp add: client_diff_def getitem_def client_satisfies_def quota_equal_def)
next
  case (Some q)
  show ?thesis
  proof (cases "py_int q")
    case (Inl e)
    with Some show ?thesis
      by (simp add: client_diff_def getitem_def client_satisfies_def quota_equal_def)
  next
    case (Inr n)
    have "(\<exists>c'. client_diff p c = Inr (c', False)) \<longleftrightarrow>
          list_all (field_matches (AList.update ''quota'' (PInt n) c)) (client_stmts p)"
      by (simp add: client_diff_coerce [OF Some Inr] exec_stmts_unchanged_iff)
    also have "\<dots> \<longleftrightarrow> client_satisfies p c"
      unfolding client_stmts_matches client_satisfies_def quota_equal_def
      using Some Inr by auto
    finally show ?thesis .
  qed
qed

lemma job_stmts_matches:
  "list_all (field_matches j) (job_stmts p client) \<longleftrightarrow> job_matches p client j"
  unfolding job_stmts_def job_matches_def
  by (cases "map_of client ''id''") (auto simp: getitem_def)

lemma job_diff_unchanged_iff:
  "(\<exists>j'. job_diff p client j = Inr (j', False)) \<longleftrightarrow> job_matches p client j"
  by (simp add: job_diff_def exec_stmts_unchanged_iff job_stmts_matches)

lemma py_eq_PInt_py_int: "py_eq r (PInt m) \<Longrightarrow> py_int r = Inr m"
  by (cases r) auto

lemma scalar_quota_equal: "scalar_equal c ''quota'' (PInt m) \<Longrightarrow> quota_equal c m"
  by (auto simp: scalar_equal_def quota_equal_def py_eq_PInt_py_int split: option.splits)

lemma client_stmts_satisfies:
  "list_all (field_matches c) (client_stmts p) \<Longrightarrow> client_satisfies p c"
  unfolding client_stmts_def client_satisfies_def
  by (simp add: scalar_quota_equal)

lemma client_stmts_distinct: "distinct (map fst (client_stmts p))"
  by (simp add: client_stmts_def)

lemma job_stmts_distinct: "distinct (map fst (job_stmts p client))"
  by (simp add: job_stmts_def)

lemma client_diff_fixpoint:
  assumes "client_diff p c = Inr (c', ch)"
  shows "client_satisfies p c'"
proof -
  from assms obtain q n where "map_of c ''quota'' = Some q" "py_int q = Inr n"
    by (auto simp: client_diff_def getitem_def split: option.splits sum.splits)
  with assms have "exec_stmts (client_stmts p) (AList.update ''quota'' (PInt n) c, False) = Inr (c', ch)"
    by (simp add: client_diff_coerce)
  then have "list_all (field_matches c') (client_stmts p)"
    using client_stmts_distinct by (rule exec_stmts_establishes)
  then show ?thesis by (rule client_stmts_satisfies)
qed

lemma job_diff_fixpoint:
  assumes "job_diff p client j = Inr (j', ch)"
  shows "job_matches p client j'"
proof -
  from assms have "list_all (field_matches j') (job_stmts p client)"
    unfolding job_diff_def using job_stmts_distinct by (rule exec_stmts_establishes)
  then show ?thesis by (simp add: job_stmts_matches)
qed

lemma set_equal_self_ints: "map_of d k = Some (int_list xs) \<Longrightarrow> set_equal d k (int_list xs)"
  by (simp add: set_equal_def py_set_int_list py_set_eq_refl)

lemma set_equal_self_strs: "map_of d k = Some (str_list xs) \<Longrightarrow> set_equal d k (str_list xs)"
  by (simp add: set_equal_def py_set_str_list py_set_eq_refl)

lemma scalar_equal_self: "map_of d k = Some v \<Longrightarrow> scalar_equal d k v"
  by (simp add: scalar_equal_def)

lemma lookup_client_pair:
  "get_client_by_name srv nm = (fst (get_client_by_name srv nm), [GET ClientsJson nm])"
  by (simp add: get_client_by_name_def prod_eq_iff get_by_name_trace)

lemma lookup_job_pair:
  "get_job_by_name srv nm = (fst (get_job_by_name srv nm), [GET JobsJson nm])"
  by (simp add: get_job_by_name_def prod_eq_iff get_by_name_trace)

lemma create_trace: "snd (create ep srv d) = [POST ep d]"
  by (simp add: create_def Let_def)

lemma update_trace:
  "map_of d ''id'' = Some i \<Longrightarrow> snd (update ep srv d) = [PUT (ep i) d]"
  by (simp add: update_def Let_def getitem_def)

lemma delete_trace: "snd (delete ep srv i) = [DELETE (ep i)]"
  by (simp add: delete_def Let_def)

lemma client_apply_create_trace: "snd (client_apply_create srv d) = [POST ClientsJson d]"
  using create_trace [of ClientsJson srv d]
  by (auto simp: client_apply_create_def create_client_def split: prod.splits sum.splits)

lemma job_apply_create_trace: "snd (job_apply_create srv d) = [POST JobsJson d]"
  using create_trace [of JobsJson srv d]
  by (auto simp: job_apply_create_def create_job_def split: prod.splits sum.splits)

lemma client_apply_create_ok:
  "fst (create_client srv d) = Inr (Value (PInt n)) \<Longrightarrow> n \<noteq> 0 \<Longrightarrow>
   fst (client_apply_create srv d) =
     exit_json \<lparr>changed = True, res_id = Some (PInt n), api_result = None\<rparr>"
  by (auto simp: client_apply_create_def result0_def split: prod.splits sum.splits)

lemma job_apply_create_ok:
  "fst (create_job srv d) = Inr (Value (PInt n)) \<Longrightarrow> n \<noteq> 0 \<Longrightarrow>
   fst (job_apply_create srv d) =
     exit_json \<lparr>changed = True, res_id = Some (PInt n), api_result = None\<rparr>"
  by (auto simp: job_apply_create_def result0_def split: prod.splits sum.splits)

lemma client_apply_update_trace:
  "map_of d ''id'' = Some i \<Longrightarrow> snd (client_apply_update srv (d, True)) = [PUT (ClientJson i) d]"
  using update_trace [of d i ClientJson srv]
  by (auto simp: client_apply_update_def update_client_def split: prod.splits sum.splits)

lemma job_apply_update_trace:
  "map_of d ''id'' = Some i \<Longrightarrow> snd (job_apply_update srv (d, True)) = [PUT (JobJson i) d]"
  using update_trace [of d i JobJson srv]
  by (auto simp: job_apply_update_def update_job_def split: prod.splits sum.splits)

lemma client_apply_update_ok:
  "fst (update_client srv d) = Inr (Value (PInt n)) \<Longrightarrow> n \<noteq> 0 \<Longrightarrow>
   fst (client_apply_update srv (d, True)) =
     exit_json \<lparr>changed = True, res_id = Some (PInt n), api_result = None\<rparr>"
  by (auto simp: client_apply_update_def result0_def split: prod.splits sum.splits)

lemma job_apply_update_ok:
  "fst (update_job srv d) = Inr (Value (PInt n)) \<Longrightarrow> n \<noteq> 0 \<Longrightarrow>
   fst (job_apply_update srv (d, True)) =
     exit_json \<lparr>changed = True, res_id = Some (PInt n), api_result = None\<rparr>"
  by (auto simp: job_apply_update_def result0_def split: prod.splits sum.splits)

lemma apply_update_unchanged:
  "client_apply_update srv (d, False) =
     (exit_json \<lparr>changed = False, res_id = None, api_result = None\<rparr>, [])"
  "job_apply_update srv (d, False) =
     (exit_json \<lparr>changed = False, res_id = None, api_result = None\<rparr>, [])"
  by (simp_all add: client_apply_update_def job_apply_update_def result0_def)

lemma client_apply_delete_trace:
  "map_of d ''id'' = Some i \<Longrightarrow> snd (client_apply_delete srv d) = [DELETE (ClientJson i)]"
  using delete_trace [of ClientJson srv i]
  by (auto simp: client_apply_delete_def delete_client_def getitem_def split: prod.splits)

lemma job_apply_delete_trace:
  "map_of d ''id'' = Some i \<Longrightarrow> snd (job_apply_delete srv d) = [DELETE (JobJson i)]"
  using delete_trace [of JobJson srv i]
  by (auto simp: job_apply_delete_def delete_job_def getitem_def split: prod.splits)

lemma client_apply_delete_ok:
  "map_of d ''id'' = Some i \<Longrightarrow> fst (delete_client srv i) = Value (PBool True) \<Longrightarrow>
   fst (client_apply_delete srv d) =
     exit_json \<lparr>changed = True, res_id = None, api_result = None\<rparr>"
  by (auto simp: client_apply_delete_def result0_def getitem_def split: prod.splits)

lemma job_apply_delete_ok:
  "map_of d ''id'' = Some i \<Longrightarrow> fst (delete_job srv i) = Value (PBool True) \<Longrightarrow>
   fst (job_apply_delete srv d) =
     exit_json \<lparr>changed = True, res_id = None, api_result = None\<rparr>"
  by (auto simp: job_apply_delete_def result0_def getitem_def split: prod.splits)

lemma lookup_client_eq:
  "fst (get_client_by_name srv nm) = x \<Longrightarrow> get_client_by_name srv nm = (x, [GET ClientsJson nm])"
  by (auto simp: prod_eq_iff get_client_by_name_def get_by_name_trace)

lemma lookup_job_eq:
  "fst (get_job_by_name srv nm) = x \<Longrightarrow> get_job_by_name srv nm = (x, [GET JobsJson nm])"
  by (auto simp: prod_eq_iff get_job_by_name_def get_by_name_trace)

lemma client_run_create:
  assumes "state p = ''present''" "fst (get_client_by_name srv (name p)) = Inr None"
  shows "client_run_module srv p =
     (fst (client_apply_create srv (client_new p)),
      [GET ClientsJson (name p), POST ClientsJson (client_new p)])"
  using assms(1) client_apply_create_trace [of srv "client_new p"]
  by (simp add: client_run_module_def lookup_client_eq [OF assms(2)] case_prod_beta)

lemma client_run_diff:
  assumes "state p = ''present''" "fst (get_client_by_name srv (name p)) = Inr (Some c)"
    and "client_diff p c = Inr st"
  shows "client_run_module srv p =
     (fst (client_apply_update srv st),
      GET ClientsJson (name p) # snd (client_apply_update srv st))"
  using assms(1,3)
  by (simp add: client_run_module_def lookup_client_eq [OF assms(2)] case_prod_beta)

lemma client_run_absent_missing:
  assumes "state p = ''absent''" "fst (get_client_by_name srv (name p)) = Inr None"
  shows "client_run_module srv p =
     (exit_json \<lparr>changed = False, res_id = None, api_result = None\<rparr>, [GET ClientsJson (name p)])"
  using assms(1)
  by (simp add: client_run_module_def lookup_client_eq [OF assms(2)] result0_def)

lemma client_run_delete:
  assumes "state p = ''absent''" "fst (get_client_by_name srv (name p)) = Inr (Some c)"
  shows "client_run_module srv p =
     (fst (client_apply_delete srv c), GET ClientsJson (name p) # snd (client_apply_delete srv c))"
  using assms(1)
  by (simp add: client_run_module_def lookup_client_eq [OF assms(2)] case_prod_beta)

lemma job_run_no_client:
  assumes "job_state p = ''present''" "fst (get_client_by_name srv (client_name p)) = Inr None"
  shows "job_run_module srv p =
     (fail_json ''Play failed''
        \<lparr>changed = False, res_id = None,
         api_result = Some (JsonBody (Object (client_not_found (client_name p))))\<rparr>,
      [GET ClientsJson (client_name p)])"
  using assms(1)
  by (simp add: job_run_module_def lookup_client_eq [OF assms(2)] result0_def)

lemma job_run_create:
  assumes "job_state p = ''present''"
    and "fst (get_client_by_name srv (client_name p)) = Inr (Some client)"
    and "fst (get_job_by_name srv (job_name p)) = Inr None"
    and "job_new p client = Inr j"
  shows "job_run_module srv p =
     (fst (job_apply_create srv j),
      [GET ClientsJson (client_name p), GET JobsJson (job_name p), POST JobsJson j])"
  using assms(1,4) job_apply_create_trace [of srv j]
  by (simp add: job_run_module_def lookup_client_eq [OF assms(2)] lookup_job_eq [OF assms(3)]
           case_prod_beta)

lemma job_run_diff:
  assumes "job_state p = ''present''"
    and "fst (get_client_by_name srv (client_name p)) = Inr (Some client)"
    and "fst (get_job_by_name srv (job_name p)) = Inr (Some j)"
    and "job_diff p client j = Inr st"
  shows "job_run_module srv p =
     (fst (job_apply_update srv st),
      GET ClientsJson (client_name p) # GET JobsJson (job_name p) # snd (job_apply_update srv st))"
  using assms(1,4)
  by (simp add: job_run_module_def lookup_client_eq [OF assms(2)] lookup_job_eq [OF assms(3)]
           case_prod_beta)

lemma job_run_absent_missing:
  assumes "job_state p = ''absent''" "fst (get_job_by_name srv (job_name p)) = Inr None"
  shows "job_run_module srv p =
     (exit_json \<lparr>changed = False, res_id = None, api_result = None\<rparr>, [GET JobsJson (job_name p)])"
  using assms(1)
  by (simp add: job_run_module_def lookup_job_eq [OF assms(2)] result0_def)

lemma job_run_delete:
  assumes "job_state p = ''absent''" "fst (get_job_by_name srv (job_name p)) = Inr (Some j)"
  shows "job_run_module srv p =
     (fst (job_apply_delete srv j), GET JobsJson (job_name p) # snd (job_apply_delete srv j))"
  using assms(1)
  by (simp add: job_run_module_def lookup_job_eq [OF assms(2)] case_prod_beta)

subsection \<open>Evaluation of the examples\<close>

lemmas value_defs =
  parse_int_def strip_def py_isspace_def digit_of_def int_list_def str_list_def
  py_set_eq_def getitem_def scalar_equal_def set_equal_def quota_equal_def

lemma example_client_satisfied: "client_satisfies example_client remote_client"
  by (simp add: client_satisfies_def example_client_def remote_client_def value_defs)

lemma example_job_satisfied: "job_matches example_job remote_client remote_job"
  by (simp add: job_matches_def example_job_def remote_client_def remote_job_def value_defs)

lemma example_srv_client:
  "fst (get_client_by_name (example_srv [c] js w) nm) = Inr (Some c)"
  by (simp add: get_client_by_name_def get_by_name_def)

lemma example_srv_job:
  "fst (get_job_by_name (example_srv cs [j] w) nm) = Inr (Some j)"
  by (simp add: get_job_by_name_def get_by_name_def)

lemma example_srv_no_client:
  "fst (get_client_by_name (example_srv [] js w) nm) = Inr None"
  by (simp add: get_client_by_name_def get_by_name_def)

lemma example_srv_no_job:
  "fst (get_job_by_name (example_srv cs [] w) nm) = Inr None"
  by (simp add: get_job_by_name_def get_by_name_def)

subsection \<open>Observation of the remote state\<close>

lemma observes_lookup:
  assumes "observes ep srv nm cs x"
  shows "fst (get_by_name ep srv nm) = Inr x"
proof -
  from assms have l: "json (srv (GET ep nm)) = Some (Array cs)"
    and n: "length cs = 1 \<or> named cs" and x: "located nm cs = x"
    by (simp_all add: observes_def listing_def)
  consider "length cs = 1" | "cs = []" | "1 < length cs" "named cs"
    using n by (cases cs) auto
  then show ?thesis
  proof cases
    case 1
    with x get_by_name_array(1) [of srv ep nm cs, OF l] show ?thesis by (simp add: located_def)
  next
    case 2
    with x get_by_name_array(3) [of srv ep nm cs, OF l] show ?thesis by (simp add: located_def exact_match_def)
  next
    case 3
    from 3(2) have "\<forall>c\<in>set cs. map_of c ''name'' \<noteq> None" by (simp add: named_def list_all_iff)
    with 3(1) x get_by_name_array(2) [of srv ep nm cs, OF l] show ?thesis
      by (simp add: located_def exact_match_def)
  qed
qed

lemma observes_client:
  "observes ClientsJson srv nm cs x \<Longrightarrow> fst (get_client_by_name srv nm) = Inr x"
  unfolding get_client_by_name_def by (rule observes_lookup)

lemma observes_job:
  "observes JobsJson srv nm cs x \<Longrightarrow> fst (get_job_by_name srv nm) = Inr x"
  unfolding get_job_by_name_def by (rule observes_lookup)

lemma accepts_create:
  "accepts srv (POST ep d) n \<Longrightarrow> fst (create ep srv d) = Inr (Value (PInt n)) \<and> n \<noteq> 0"
  by (auto simp: accepts_def create_def Let_def getitem_def split: option.splits body.splits)

lemma accepts_update:
  "accepts srv (PUT (ep i) d) n \<Longrightarrow> map_of d ''id'' = Some i \<Longrightarrow>
   fst (update ep srv d) = Inr (Value (PInt n)) \<and> n \<noteq> 0"
  by (auto simp: accepts_def update_def Let_def getitem_def split: option.splits body.splits)

lemma ok_delete:
  "ok (srv (DELETE (ep i))) \<Longrightarrow> fst (delete ep srv i) = Value (PBool True)"
  by (simp add: delete_def Let_def)


subsection \<open>Totality of the comparison\<close>

lemma comparable_cong:
  "map_of d' (fst s) = map_of d (fst s) \<Longrightarrow> comparable d' s = comparable d s"
  by (cases "(d, s)" rule: comparable.cases) (simp_all add: has_field_def has_collection_def)

lemma exec_stmt_total:
  "comparable d s \<Longrightarrow> \<exists>d' ch'. exec_stmt s (d, ch) = Inr (d', ch')"
  by (cases "(d, s)" rule: comparable.cases)
     (auto simp: has_field_def has_collection_def is_collection_def getitem_def
           split: option.splits sum.splits)

lemma exec_stmts_total:
  "list_all (comparable d) ss \<Longrightarrow> distinct (map fst ss) \<Longrightarrow>
   \<exists>d' ch'. exec_stmts ss (d, ch) = Inr (d', ch')"
proof (induction ss arbitrary: d ch)
  case Nil
  show ?case by simp
next
  case (Cons s ss)
  from Cons.prems(1) have "comparable d s" by simp
  then obtain d1 ch1 where 1: "exec_stmt s (d, ch) = Inr (d1, ch1)"
    using exec_stmt_total by blast
  have "list_all (comparable d1) ss"
    unfolding list_all_iff
  proof
    fix t assume t: "t \<in> set ss"
    then have "fst t \<in> fst ` set ss" by (rule imageI)
    moreover from Cons.prems(2) have "fst s \<notin> fst ` set ss" by simp
    ultimately have "fst t \<noteq> fst s" by metis
    with 1 have "map_of d1 (fst t) = map_of d (fst t)" by (rule exec_stmt_other_key)
    then have "comparable d1 t = comparable d t" by (rule comparable_cong)
    with Cons.prems(1) t show "comparable d1 t" by (simp add: list_all_iff)
  qed
  moreover from Cons.prems(2) have "distinct (map fst ss)" by simp
  ultimately obtain d' ch' where "exec_stmts ss (d1, ch1) = Inr (d', ch')"
    using Cons.IH by blast
  with 1 show ?case by simp
qed

lemma client_wellformed_comparable:
  "client_wellformed c \<Longrightarrow>
   list_all (comparable (AList.update ''quota'' (PInt n) c)) (client_stmts p)"
  unfolding client_wellformed_def client_stmts_def
  by (simp add: has_field_def has_collection_def is_collection_def update_conv' py_set_int_list)

lemma client_diff_total:
  assumes "client_wellformed c"
  shows "\<exists>c' ch. client_diff p c = Inr (c', ch)"
proof -
  from assms obtain r n where q: "map_of c ''quota'' = Some r" "py_int r = Inr n"
    by (auto simp: client_wellformed_def has_quota_def split: option.splits sum.splits)
  from assms have "list_all (comparable (AList.update ''quota'' (PInt n) c)) (client_stmts p)"
    by (rule client_wellformed_comparable)
  then show ?thesis
    unfolding client_diff_coerce [OF q] using client_stmts_distinct by (rule exec_stmts_total)
qed

lemma job_wellformed_comparable:
  "job_wellformed j \<Longrightarrow> map_of cl ''id'' = Some ci \<Longrightarrow> list_all (comparable j) (job_stmts q cl)"
  unfolding job_wellformed_def job_stmts_def
  by (simp add: has_field_def has_collection_def is_collection_def getitem_def
        py_set_int_list py_set_str_list)

lemma job_diff_total:
  assumes "job_wellformed j" "map_of cl ''id'' = Some ci"
  shows "\<exists>j' ch. job_diff q cl j = Inr (j', ch)"
  unfolding job_diff_def
  using job_wellformed_comparable [OF assms] job_stmts_distinct by (rule exec_stmts_total)


lemma client_diff_changed_id:
  assumes "client_diff p c = Inr (c', ch)" "map_of c ''id'' = Some i"
  shows "map_of c' ''id'' = Some i"
proof -
  from assms(1) obtain q n where q: "map_of c ''quota'' = Some q" "py_int q = Inr n"
    by (auto simp: client_diff_def getitem_def split: option.splits sum.splits)
  with assms(1) have "exec_stmts (client_stmts p) (AList.update ''quota'' (PInt n) c, False) = Inr (c', ch)"
    by (simp add: client_diff_coerce)
  moreover have "''id'' \<notin> fst ` set (client_stmts p)"
    by (simp add: client_stmts_def)
  ultimately have "map_of c' ''id'' = map_of (AList.update ''quota'' (PInt n) c) ''id''"
    by (rule exec_stmts_other_key)
  with assms(2) show ?thesis by (simp add: update_conv')
qed

lemma job_diff_changed_id:
  assumes "job_diff p client j = Inr (j', ch)" "map_of j ''id'' = Some i"
  shows "map_of j' ''id'' = Some i"
proof -
  have "''id'' \<notin> fst ` set (job_stmts p client)"
    by (simp add: job_stmts_def)
  with assms(1) have "map_of j' ''id'' = map_of j ''id''"
    unfolding job_diff_def by (rule exec_stmts_other_key)
  with assms(2) show ?thesis by simp
qed


lemma client_diff_differs:
  assumes "client_wellformed c" "\<not> client_satisfies p c"
  shows "\<exists>c'. client_diff p c = Inr (c', True)"
proof -
  from assms(1) obtain c' ch where d: "client_diff p c = Inr (c', ch)"
    using client_diff_total by blast
  with assms(2) have ch
    using client_diff_unchanged_iff [of p c] by (cases ch) auto
  with d show ?thesis by auto
qed

lemma job_diff_differs:
  assumes "job_wellformed j" "map_of cl ''id'' = Some ci" "\<not> job_matches q cl j"
  shows "\<exists>j'. job_diff q cl j = Inr (j', True)"
proof -
  from assms(1,2) obtain j' ch where d: "job_diff q cl j = Inr (j', ch)"
    using job_diff_total by blast
  with assms(3) have ch
    using job_diff_unchanged_iff [of q cl j] by (cases ch) auto
  with d show ?thesis by auto
qed

lemma client_new_matches: "client_satisfies p (client_new p)"
  unfolding client_satisfies_def client_new_def
  by (simp add: scalar_equal_self set_equal_self_ints quota_equal_def)

lemma job_new_total: "map_of cl ''id'' = Some ci \<Longrightarrow> \<exists>j. job_new q cl = Inr j"
  by (simp add: job_new_def getitem_def)

lemma job_new_matches: "job_new q cl = Inr j \<Longrightarrow> job_matches q cl j"
  unfolding job_matches_def job_new_def
  by (auto simp: scalar_equal_self set_equal_self_ints set_equal_self_strs getitem_def
           split: option.splits)

lemma client_satisfies_stored:
  "client_satisfies p c \<Longrightarrow> client_satisfies p ((''id'', i) # c)"
  by (simp add: client_satisfies_def scalar_equal_def set_equal_def quota_equal_def)

lemma job_matches_stored:
  "job_matches q cl j \<Longrightarrow> job_matches q cl ((''id'', i) # j)"
  by (cases "map_of cl ''id''") (simp_all add: job_matches_def scalar_equal_def set_equal_def)

lemma job_matches_client:
  "map_of cl' ''id'' = map_of cl ''id'' \<Longrightarrow> job_matches q cl' j = job_matches q cl j"
  by (simp add: job_matches_def)


subsection \<open>The rows of the transition table\<close>

lemma client_row_create:
  assumes "state p = ''present''" "observes ClientsJson srv (name p) cs None"
  shows "\<exists>c'. snd (client_run_module srv p) = [GET ClientsJson (name p), POST ClientsJson c'] \<and>
      client_satisfies p c' \<and>
      (accepts srv (POST ClientsJson c') n \<longrightarrow>
         fst (client_run_module srv p) =
           exit_json \<lparr>changed = True, res_id = Some (PInt n), api_result = None\<rparr>)"
proof -
  note run = client_run_create [OF assms(1) observes_client [OF assms(2)]]
  have 1: "snd (client_run_module srv p) =
      [GET ClientsJson (name p), POST ClientsJson (client_new p)]"
    by (simp add: run)
  have 2: "fst (client_run_module srv p) =
      exit_json \<lparr>changed = True, res_id = Some (PInt n), api_result = None\<rparr>"
    if "accepts srv (POST ClientsJson (client_new p)) n"
  proof -
    from accepts_create [OF that]
    have "fst (create_client srv (client_new p)) = Inr (Value (PInt n))" "n \<noteq> 0"
      by (simp_all add: create_client_def)
    then show ?thesis by (simp add: run client_apply_create_ok)
  qed
  from 1 2 client_new_matches [of p] show ?thesis by blast
qed

lemma client_row_same:
  assumes "state p = ''present''" "observes ClientsJson srv (name p) cs (Some c)"
    and "client_satisfies p c"
  shows "client_run_module srv p =
      (exit_json \<lparr>changed = False, res_id = None, api_result = None\<rparr>,
       [GET ClientsJson (name p)])"
proof -
  from assms(3) obtain c' where "client_diff p c = Inr (c', False)"
    using client_diff_unchanged_iff by blast
  from client_run_diff [OF assms(1) observes_client [OF assms(2)] this] show ?thesis
    by (simp add: apply_update_unchanged)
qed

lemma client_row_update:
  assumes "state p = ''present''" "observes ClientsJson srv (name p) cs (Some c)"
    and "client_wellformed c" "\<not> client_satisfies p c" "map_of c ''id'' = Some i"
  shows "\<exists>c'. snd (client_run_module srv p) = [GET ClientsJson (name p), PUT (ClientJson i) c'] \<and>
      client_satisfies p c' \<and>
      (accepts srv (PUT (ClientJson i) c') n \<longrightarrow>
         fst (client_run_module srv p) =
           exit_json \<lparr>changed = True, res_id = Some (PInt n), api_result = None\<rparr>)"
proof -
  from assms(3,4) obtain c' where d: "client_diff p c = Inr (c', True)"
    using client_diff_differs by blast
  note run = client_run_diff [OF assms(1) observes_client [OF assms(2)] d]
  have i': "map_of c' ''id'' = Some i" using d assms(5) by (rule client_diff_changed_id)
  have 1: "snd (client_run_module srv p) = [GET ClientsJson (name p), PUT (ClientJson i) c']"
    by (simp add: run client_apply_update_trace [OF i'])
  have 2: "fst (client_run_module srv p) =
      exit_json \<lparr>changed = True, res_id = Some (PInt n), api_result = None\<rparr>"
    if "accepts srv (PUT (ClientJson i) c') n"
  proof -
    from accepts_update [of srv ClientJson i c' n, OF that i']
    have "fst (update_client srv c') = Inr (Value (PInt n))" "n \<noteq> 0"
      by (simp_all add: update_client_def)
    then show ?thesis by (simp add: run client_apply_update_ok)
  qed
  from 1 2 client_diff_fixpoint [OF d] show ?thesis by blast
qed

lemma client_row_gone:
  assumes "state p = ''absent''" "observes ClientsJson srv (name p) cs None"
  shows "client_run_module srv p =
      (exit_json \<lparr>changed = False, res_id = None, api_result = None\<rparr>,
       [GET ClientsJson (name p)])"
  using assms(1) observes_client [OF assms(2)] by (rule client_run_absent_missing)

lemma client_row_delete:
  assumes "state p = ''absent''" "observes ClientsJson srv (name p) cs (Some c)"
    and "map_of c ''id'' = Some i"
  shows "snd (client_run_module srv p) = [GET ClientsJson (name p), DELETE (ClientJson i)]"
    and "ok (srv (DELETE (ClientJson i))) \<Longrightarrow>
         fst (client_run_module srv p) =
           exit_json \<lparr>changed = True, res_id = None, api_result = None\<rparr>"
proof -
  note run = client_run_delete [OF assms(1) observes_client [OF assms(2)]]
  show "snd (client_run_module srv p) = [GET ClientsJson (name p), DELETE (ClientJson i)]"
    by (simp add: run client_apply_delete_trace [OF assms(3)])
  assume "ok (srv (DELETE (ClientJson i)))"
  then have "fst (delete_client srv i) = Value (PBool True)"
    unfolding delete_client_def by (rule ok_delete)
  then show "fst (client_run_module srv p) =
      exit_json \<lparr>changed = True, res_id = None, api_result = None\<rparr>"
    by (simp add: run client_apply_delete_ok [OF assms(3)])
qed

lemma job_row_create:
  assumes "job_state q = ''present''"
    and "observes ClientsJson srv (client_name q) cls (Some cl)" "map_of cl ''id'' = Some ci"
    and "observes JobsJson srv (job_name q) js None"
  shows "\<exists>j'. snd (job_run_module srv q) =
        [GET ClientsJson (client_name q), GET JobsJson (job_name q), POST JobsJson j'] \<and>
      job_matches q cl j' \<and>
      (accepts srv (POST JobsJson j') n \<longrightarrow>
         fst (job_run_module srv q) =
           exit_json \<lparr>changed = True, res_id = Some (PInt n), api_result = None\<rparr>)"
proof -
  from assms(3) obtain j' where j': "job_new q cl = Inr j'"
    using job_new_total by blast
  note run = job_run_create [OF assms(1) observes_client [OF assms(2)]
      observes_job [OF assms(4)] j']
  have 1: "snd (job_run_module srv q) =
      [GET ClientsJson (client_name q), GET JobsJson (job_name q), POST JobsJson j']"
    by (simp add: run)
  have 2: "fst (job_run_module srv q) =
      exit_json \<lparr>changed = True, res_id = Some (PInt n), api_result = None\<rparr>"
    if "accepts srv (POST JobsJson j') n"
  proof -
    from accepts_create [OF that]
    have "fst (create_job srv j') = Inr (Value (PInt n))" "n \<noteq> 0"
      by (simp_all add: create_job_def)
    then show ?thesis by (simp add: run job_apply_create_ok)
  qed
  from 1 2 job_new_matches [OF j'] show ?thesis by blast
qed

lemma job_row_same:
  assumes "job_state q = ''present''"
    and "observes ClientsJson srv (client_name q) cls (Some cl)"
    and "observes JobsJson srv (job_name q) js (Some j)" "job_matches q cl j"
  shows "job_run_module srv q =
      (exit_json \<lparr>changed = False, res_id = None, api_result = None\<rparr>,
       [GET ClientsJson (client_name q), GET JobsJson (job_name q)])"
proof -
  from assms(4) obtain j' where "job_diff q cl j = Inr (j', False)"
    using job_diff_unchanged_iff by blast
  from job_run_diff [OF assms(1) observes_client [OF assms(2)] observes_job [OF assms(3)] this]
  show ?thesis
    by (simp add: apply_update_unchanged)
qed

lemma job_row_update:
  assumes "job_state q = ''present''"
    and "observes ClientsJson srv (client_name q) cls (Some cl)" "map_of cl ''id'' = Some ci"
    and "observes JobsJson srv (job_name q) js (Some j)"
    and "job_wellformed j" "\<not> job_matches q cl j" "map_of j ''id'' = Some i"
  shows "\<exists>j'. snd (job_run_module srv q) =
        [GET ClientsJson (client_name q), GET JobsJson (job_name q), PUT (JobJson i) j'] \<and>
      job_matches q cl j' \<and>
      (accepts srv (PUT (JobJson i) j') n \<longrightarrow>
         fst (job_run_module srv q) =
           exit_json \<lparr>changed = True, res_id = Some (PInt n), api_result = None\<rparr>)"
proof -
  from assms(5,3,6) obtain j' where d: "job_diff q cl j = Inr (j', True)"
    using job_diff_differs by blast
  note run = job_run_diff [OF assms(1) observes_client [OF assms(2)] observes_job [OF assms(4)] d]
  have i': "map_of j' ''id'' = Some i" using d assms(7) by (rule job_diff_changed_id)
  have 1: "snd (job_run_module srv q) =
      [GET ClientsJson (client_name q), GET JobsJson (job_name q), PUT (JobJson i) j']"
    by (simp add: run job_apply_update_trace [OF i'])
  have 2: "fst (job_run_module srv q) =
      exit_json \<lparr>changed = True, res_id = Some (PInt n), api_result = None\<rparr>"
    if "accepts srv (PUT (JobJson i) j') n"
  proof -
    from accepts_update [of srv JobJson i j' n, OF that i']
    have "fst (update_job srv j') = Inr (Value (PInt n))" "n \<noteq> 0"
      by (simp_all add: update_job_def)
    then show ?thesis by (simp add: run job_apply_update_ok)
  qed
  from 1 2 job_diff_fixpoint [OF d] show ?thesis by blast
qed

lemma job_row_gone:
  assumes "job_state q = ''absent''" "observes JobsJson srv (job_name q) js None"
  shows "job_run_module srv q =
      (exit_json \<lparr>changed = False, res_id = None, api_result = None\<rparr>,
       [GET JobsJson (job_name q)])"
  using assms(1) observes_job [OF assms(2)] by (rule job_run_absent_missing)

lemma job_row_delete:
  assumes "job_state q = ''absent''" "observes JobsJson srv (job_name q) js (Some j)"
    and "map_of j ''id'' = Some i"
  shows "snd (job_run_module srv q) = [GET JobsJson (job_name q), DELETE (JobJson i)]"
    and "ok (srv (DELETE (JobJson i))) \<Longrightarrow>
         fst (job_run_module srv q) =
           exit_json \<lparr>changed = True, res_id = None, api_result = None\<rparr>"
proof -
  note run = job_run_delete [OF assms(1) observes_job [OF assms(2)]]
  show "snd (job_run_module srv q) = [GET JobsJson (job_name q), DELETE (JobJson i)]"
    by (simp add: run job_apply_delete_trace [OF assms(3)])
  assume "ok (srv (DELETE (JobJson i)))"
  then have "fst (delete_job srv i) = Value (PBool True)"
    unfolding delete_job_def by (rule ok_delete)
  then show "fst (job_run_module srv q) =
      exit_json \<lparr>changed = True, res_id = None, api_result = None\<rparr>"
    by (simp add: run job_apply_delete_ok [OF assms(3)])
qed

lemma client_rerun_update:
  assumes "state p = ''present''" "observes ClientsJson srv (name p) cs (Some c)"
    and "client_wellformed c" "map_of c ''id'' = Some i"
  shows "\<exists>c'. (snd (client_run_module srv p) = [GET ClientsJson (name p)] \<and> c' = c \<or>
          snd (client_run_module srv p) = [GET ClientsJson (name p), PUT (ClientJson i) c']) \<and>
      (\<forall>srv' cs'. observes ClientsJson srv' (name p) cs' (Some c') \<longrightarrow>
         client_run_module srv' p =
           (exit_json \<lparr>changed = False, res_id = None, api_result = None\<rparr>,
            [GET ClientsJson (name p)]))"
proof (cases "client_satisfies p c")
  case True
  with assms(1,2) have "snd (client_run_module srv p) = [GET ClientsJson (name p)]"
    by (simp add: client_row_same)
  moreover have "client_run_module srv' p =
      (exit_json \<lparr>changed = False, res_id = None, api_result = None\<rparr>,
       [GET ClientsJson (name p)])"
    if "observes ClientsJson srv' (name p) cs' (Some c)" for srv' cs'
    using assms(1) that True by (rule client_row_same)
  ultimately show ?thesis by blast
next
  case False
  with assms obtain c' where
    t: "snd (client_run_module srv p) = [GET ClientsJson (name p), PUT (ClientJson i) c']"
    and s: "client_satisfies p c'"
    using client_row_update [of p srv cs c i 0] by blast
  have "client_run_module srv' p =
      (exit_json \<lparr>changed = False, res_id = None, api_result = None\<rparr>,
       [GET ClientsJson (name p)])"
    if "observes ClientsJson srv' (name p) cs' (Some c')" for srv' cs'
    using assms(1) that s by (rule client_row_same)
  with t show ?thesis by blast
qed

lemma client_rerun_create:
  assumes "state p = ''present''" "observes ClientsJson srv (name p) cs None"
  shows "\<exists>c'. snd (client_run_module srv p) = [GET ClientsJson (name p), POST ClientsJson c'] \<and>
      (\<forall>srv' cs' i'. observes ClientsJson srv' (name p) cs' (Some ((''id'', i') # c')) \<longrightarrow>
         client_run_module srv' p =
           (exit_json \<lparr>changed = False, res_id = None, api_result = None\<rparr>,
            [GET ClientsJson (name p)]))"
proof -
  from assms obtain c' where
    t: "snd (client_run_module srv p) = [GET ClientsJson (name p), POST ClientsJson c']"
    and s: "client_satisfies p c'"
    using client_row_create [of p srv cs 0] by blast
  have "client_run_module srv' p =
      (exit_json \<lparr>changed = False, res_id = None, api_result = None\<rparr>,
       [GET ClientsJson (name p)])"
    if "observes ClientsJson srv' (name p) cs' (Some ((''id'', i') # c'))" for srv' cs' i'
    using assms(1) that client_satisfies_stored [OF s] by (rule client_row_same)
  with t show ?thesis by blast
qed

lemma job_rerun_update:
  assumes "job_state q = ''present''"
    and "observes ClientsJson srv (client_name q) cls (Some cl)" "map_of cl ''id'' = Some ci"
    and "observes JobsJson srv (job_name q) js (Some j)"
    and "job_wellformed j" "map_of j ''id'' = Some i"
  shows "\<exists>j'. (snd (job_run_module srv q) =
            [GET ClientsJson (client_name q), GET JobsJson (job_name q)] \<and> j' = j \<or>
          snd (job_run_module srv q) =
            [GET ClientsJson (client_name q), GET JobsJson (job_name q), PUT (JobJson i) j']) \<and>
      (\<forall>srv' cls' cl' js'. observes ClientsJson srv' (client_name q) cls' (Some cl') \<and>
         map_of cl' ''id'' = Some ci \<and> observes JobsJson srv' (job_name q) js' (Some j') \<longrightarrow>
         job_run_module srv' q =
           (exit_json \<lparr>changed = False, res_id = None, api_result = None\<rparr>,
            [GET ClientsJson (client_name q), GET JobsJson (job_name q)]))"
proof -
  have again: "job_run_module srv' q =
      (exit_json \<lparr>changed = False, res_id = None, api_result = None\<rparr>,
       [GET ClientsJson (client_name q), GET JobsJson (job_name q)])"
    if "job_matches q cl j'" "observes ClientsJson srv' (client_name q) cls' (Some cl')"
      "map_of cl' ''id'' = Some ci" "observes JobsJson srv' (job_name q) js' (Some j')"
    for j' srv' cls' cl' js'
  proof -
    from that(1,3) assms(3) have "job_matches q cl' j'"
      by (simp add: job_matches_client [of cl' cl])
    with assms(1) that(2,4) show ?thesis by (rule job_row_same)
  qed
  show ?thesis
  proof (cases "job_matches q cl j")
    case True
    with assms(1,2,4) have "snd (job_run_module srv q) =
        [GET ClientsJson (client_name q), GET JobsJson (job_name q)]"
      by (simp add: job_row_same)
    with again [OF True] show ?thesis by blast
  next
    case False
    with assms obtain j' where
      t: "snd (job_run_module srv q) =
        [GET ClientsJson (client_name q), GET JobsJson (job_name q), PUT (JobJson i) j']"
      and s: "job_matches q cl j'"
      using job_row_update [of q srv cls cl ci js j i 0] by blast
    with again [OF s] show ?thesis by blast
  qed
qed

lemma job_rerun_create:
  assumes "job_state q = ''present''"
    and "observes ClientsJson srv (client_name q) cls (Some cl)" "map_of cl ''id'' = Some ci"
    and "observes JobsJson srv (job_name q) js None"
  shows "\<exists>j'. snd (job_run_module srv q) =
        [GET ClientsJson (client_name q), GET JobsJson (job_name q), POST JobsJson j'] \<and>
      (\<forall>srv' cls' cl' js' i'. observes ClientsJson srv' (client_name q) cls' (Some cl') \<and>
         map_of cl' ''id'' = Some ci \<and>
         observes JobsJson srv' (job_name q) js' (Some ((''id'', i') # j')) \<longrightarrow>
         job_run_module srv' q =
           (exit_json \<lparr>changed = False, res_id = None, api_result = None\<rparr>,
            [GET ClientsJson (client_name q), GET JobsJson (job_name q)]))"
proof -
  from assms obtain j' where
    t: "snd (job_run_module srv q) =
      [GET ClientsJson (client_name q), GET JobsJson (job_name q), POST JobsJson j']"
    and s: "job_matches q cl j'"
    using job_row_create [of q srv cls cl ci js 0] by blast
  have "job_run_module srv' q =
      (exit_json \<lparr>changed = False, res_id = None, api_result = None\<rparr>,
       [GET ClientsJson (client_name q), GET JobsJson (job_name q)])"
    if "observes ClientsJson srv' (client_name q) cls' (Some cl')"
      "map_of cl' ''id'' = Some ci"
      "observes JobsJson srv' (job_name q) js' (Some ((''id'', i') # j'))"
    for srv' cls' cl' js' i'
  proof -
    from s that(2) assms(3) have "job_matches q cl' ((''id'', i') # j')"
      by (simp add: job_matches_client [of cl' cl] job_matches_stored)
    with assms(1) that(1,3) show ?thesis by (rule job_row_same)
  qed
  with t show ?thesis by blast
qed


subsection \<open>Runs of the examples\<close>

lemma stale_client_diff:
  "client_diff example_client stale_client = Inr (stale_client_payload, True)"
  by (simp add: client_diff_def client_stmts_def stale_client_def stale_client_payload_def
        example_client_def remote_client_def value_defs)

lemma stale_client_id: "map_of stale_client ''id'' = Some (PInt 7)"
  by (simp add: stale_client_def remote_client_def)

lemma example_update:
  "map_of d ''id'' = Some i \<Longrightarrow>
   fst (update ep (example_srv cs js (written n)) d) = Inr (Value (PInt n))"
  by (simp add: update_def written_def getitem_def Let_def)

lemma observes_example:
  "observes ClientsJson (example_srv [c] js w) nm [c] (Some c)"
  "observes ClientsJson (example_srv [] js w) nm [] None"
  "observes JobsJson (example_srv cs [j] w) nm [j] (Some j)"
  "observes JobsJson (example_srv cs [] w) nm [] None"
  by (simp_all add: observes_def listing_def located_def exact_match_def named_def)

lemma accepts_written:
  "n \<noteq> 0 \<Longrightarrow> accepts (example_srv cs js (written n)) (POST ep d) n"
  "n \<noteq> 0 \<Longrightarrow> accepts (example_srv cs js (written n)) (PUT ep d) n"
  by (simp_all add: accepts_def written_def)

lemma ok_written: "ok (written n)"
  by (simp add: written_def)

lemma example_client_new: "client_new example_client = example_client_payload"
  by (simp add: client_new_def example_client_def example_client_payload_def)

lemma example_job_new: "job_new example_job remote_client = Inr example_job_payload"
  by (simp add: job_new_def example_job_def example_job_payload_def remote_client_def
        getitem_def)

lemma sentinel_job_diff:
  "job_diff example_job remote_client sentinel_job = Inr (remote_job, True)"
  by (simp add: job_diff_def job_stmts_def sentinel_job_def example_job_def remote_client_def
        remote_job_def value_defs)

lemma stale_client_wellformed: "client_wellformed stale_client"
  by (simp add: client_wellformed_def has_field_def has_collection_def is_collection_def
        has_quota_def stale_client_def remote_client_def value_defs)

lemma stale_client_differs: "\<not> client_satisfies example_client stale_client"
  by (simp add: client_satisfies_def stale_client_def remote_client_def example_client_def
        value_defs)

lemma sentinel_job_wellformed: "job_wellformed sentinel_job"
  by (simp add: job_wellformed_def has_field_def has_collection_def is_collection_def
        sentinel_job_def remote_job_def value_defs)

lemma sentinel_job_differs: "\<not> job_matches example_job remote_client sentinel_job"
  by (simp add: job_matches_def sentinel_job_def remote_job_def remote_client_def
        example_job_def value_defs)

lemma remote_ids:
  "map_of remote_client ''id'' = Some (PInt 7)" "map_of remote_job ''id'' = Some (PInt 3)"
  "map_of sentinel_job ''id'' = Some (PInt 3)"
  by (simp_all add: remote_client_def remote_job_def sentinel_job_def)

lemma example_names:
  "state example_client = ''present''" "name example_client = ''Name1''"
  "job_state example_job = ''present''" "client_name example_job = ''Name1''"
  "job_name example_job = ''job1''"
  by (simp_all add: example_client_def example_job_def)

lemma example_client_create_trace:
  "snd (client_run_module (example_srv [] [] w) example_client) =
     [GET ClientsJson ''Name1'', POST ClientsJson example_client_payload]"
  using client_run_create [of example_client "example_srv [] [] w"]
  by (simp add: example_srv_no_client example_client_new example_client_def [THEN arg_cong, of state]
        example_client_def [THEN arg_cong, of name])

lemma example_client_update_trace:
  "snd (client_run_module (example_srv [stale_client] [] w) example_client) =
     [GET ClientsJson ''Name1'', PUT (ClientJson (PInt 7)) stale_client_payload]"
proof -
  have "map_of stale_client_payload ''id'' = Some (PInt 7)"
    using stale_client_diff stale_client_id by (rule client_diff_changed_id)
  then show ?thesis
    using client_run_diff [OF example_names(1) _ stale_client_diff,
        of "example_srv [stale_client] [] w"]
    by (simp add: example_srv_client example_names client_apply_update_trace)
qed

lemma example_job_create_trace:
  "snd (job_run_module (example_srv [remote_client] [] w) example_job) =
     [GET ClientsJson ''Name1'', GET JobsJson ''job1'', POST JobsJson example_job_payload]"
  using job_run_create [OF example_names(3) _ _ example_job_new,
      of "example_srv [remote_client] [] w"]
  by (simp add: example_srv_client example_srv_no_job example_names)

lemma example_job_update_trace:
  "snd (job_run_module (example_srv [remote_client] [sentinel_job] w) example_job) =
     [GET ClientsJson ''Name1'', GET JobsJson ''job1'', PUT (JobJson (PInt 3)) remote_job]"
  using job_run_diff [OF example_names(3) _ _ sentinel_job_diff,
      of "example_srv [remote_client] [sentinel_job] w"]
  by (simp add: example_srv_client example_srv_job example_names job_apply_update_trace
        remote_ids)

lemma example_job_update_run:
  "job_run_module (example_srv [remote_client] [sentinel_job] (written 3)) example_job =
     (exit_json \<lparr>changed = True, res_id = Some (PInt 3), api_result = None\<rparr>,
      [GET ClientsJson ''Name1'', GET JobsJson ''job1'', PUT (JobJson (PInt 3)) remote_job])"
proof -
  have "fst (update_job (example_srv [remote_client] [sentinel_job] (written 3)) remote_job) =
      Inr (Value (PInt 3))"
    unfolding update_job_def using remote_ids(2) by (rule example_update)
  then have "fst (job_apply_update (example_srv [remote_client] [sentinel_job] (written 3))
      (remote_job, True)) = exit_json \<lparr>changed = True, res_id = Some (PInt 3), api_result = None\<rparr>"
    by (rule job_apply_update_ok) simp
  then show ?thesis
    using job_run_diff [OF example_names(3) _ _ sentinel_job_diff,
      of "example_srv [remote_client] [sentinel_job] (written 3)"]
    by (simp add: example_srv_client example_srv_job example_names job_apply_update_trace
        remote_ids)
qed

lemma sentinel_job_satisfies: "job_satisfies example_job remote_client sentinel_job"
  by (simp add: job_satisfies_def nullable_equal_def is_null_def sentinel_job_def
        remote_job_def remote_client_def example_job_def value_defs)


subsection \<open>The state machine\<close>

text \<open>
  Claim C1. The five rows of the transition table, for the Client module and for the
  Job module (whose present rows come after the resolution of the Client \<open>cl\<close>, of
  identifier \<open>ci\<close>). The remote state is what the listing shows: no resource, or the
  resource \<open>c\<close> of identifier \<open>i\<close>. Its diff is empty when it satisfies the desired
  specification, every field compared by value, the lists as sets and the Client
  quota as an integer; it is non-empty when it does not, the resource being well
  formed so that every comparison can be made. Each row fixes the requests issued, in
  order: the lookups and at most one write. A create or update sends a resource that
  satisfies the desired specification; the row reports \<open>changed = True\<close> and the new
  identifier when the service accepts the write, and so does a delete answered with a
  status below 400.
\<close>

theorem state_machine:
  "(state p = ''present'' \<and> observes ClientsJson srv (name p) cs None \<longrightarrow>
      (\<exists>c'. snd (client_run_module srv p) = [GET ClientsJson (name p), POST ClientsJson c'] \<and>
         client_satisfies p c' \<and>
         (accepts srv (POST ClientsJson c') n \<longrightarrow>
            fst (client_run_module srv p) =
              exit_json \<lparr>changed = True, res_id = Some (PInt n), api_result = None\<rparr>))) \<and>
   (state p = ''present'' \<and> observes ClientsJson srv (name p) cs (Some c) \<and>
    client_satisfies p c \<longrightarrow>
      client_run_module srv p =
        (exit_json \<lparr>changed = False, res_id = None, api_result = None\<rparr>,
         [GET ClientsJson (name p)])) \<and>
   (state p = ''present'' \<and> observes ClientsJson srv (name p) cs (Some c) \<and>
    client_wellformed c \<and> \<not> client_satisfies p c \<and> map_of c ''id'' = Some i \<longrightarrow>
      (\<exists>c'. snd (client_run_module srv p) = [GET ClientsJson (name p), PUT (ClientJson i) c'] \<and>
         client_satisfies p c' \<and>
         (accepts srv (PUT (ClientJson i) c') n \<longrightarrow>
            fst (client_run_module srv p) =
              exit_json \<lparr>changed = True, res_id = Some (PInt n), api_result = None\<rparr>))) \<and>
   (state p = ''absent'' \<and> observes ClientsJson srv (name p) cs None \<longrightarrow>
      client_run_module srv p =
        (exit_json \<lparr>changed = False, res_id = None, api_result = None\<rparr>,
         [GET ClientsJson (name p)])) \<and>
   (state p = ''absent'' \<and> observes ClientsJson srv (name p) cs (Some c) \<and>
    map_of c ''id'' = Some i \<longrightarrow>
      snd (client_run_module srv p) = [GET ClientsJson (name p), DELETE (ClientJson i)] \<and>
      (ok (srv (DELETE (ClientJson i))) \<longrightarrow>
         fst (client_run_module srv p) =
           exit_json \<lparr>changed = True, res_id = None, api_result = None\<rparr>)) \<and>
   (job_state q = ''present'' \<and> observes ClientsJson srv (client_name q) cls (Some cl) \<and>
    map_of cl ''id'' = Some ci \<and> observes JobsJson srv (job_name q) js None \<longrightarrow>
      (\<exists>j'. snd (job_run_module srv q) =
           [GET ClientsJson (client_name q), GET JobsJson (job_name q), POST JobsJson j'] \<and>
         job_matches q cl j' \<and>
         (accepts srv (POST JobsJson j') n \<longrightarrow>
            fst (job_run_module srv q) =
              exit_json \<lparr>changed = True, res_id = Some (PInt n), api_result = None\<rparr>))) \<and>
   (job_state q = ''present'' \<and> observes ClientsJson srv (client_name q) cls (Some cl) \<and>
    observes JobsJson srv (job_name q) js (Some j) \<and> job_matches q cl j \<longrightarrow>
      job_run_module srv q =
        (exit_json \<lparr>changed = False, res_id = None, api_result = None\<rparr>,
         [GET ClientsJson (client_name q), GET JobsJson (job_name q)])) \<and>
   (job_state q = ''present'' \<and> observes ClientsJson srv (client_name q) cls (Some cl) \<and>
    map_of cl ''id'' = Some ci \<and> observes JobsJson srv (job_name q) js (Some j) \<and>
    job_wellformed j \<and> \<not> job_matches q cl j \<and> map_of j ''id'' = Some i \<longrightarrow>
      (\<exists>j'. snd (job_run_module srv q) =
           [GET ClientsJson (client_name q), GET JobsJson (job_name q), PUT (JobJson i) j'] \<and>
         job_matches q cl j' \<and>
         (accepts srv (PUT (JobJson i) j') n \<longrightarrow>
            fst (job_run_module srv q) =
              exit_json \<lparr>changed = True, res_id = Some (PInt n), api_result = None\<rparr>))) \<and>
   (job_state q = ''absent'' \<and> observes JobsJson srv (job_name q) js None \<longrightarrow>
      job_run_module srv q =
        (exit_json \<lparr>changed = False, res_id = None, api_result = None\<rparr>,
         [GET JobsJson (job_name q)])) \<and>
   (job_state q = ''absent'' \<and> observes JobsJson srv (job_name q) js (Some j) \<and>
    map_of j ''id'' = Some i \<longrightarrow>
      snd (job_run_module srv q) = [GET JobsJson (job_name q), DELETE (JobJson i)] \<and>
      (ok (srv (DELETE (JobJson i))) \<longrightarrow>
         fst (job_run_module srv q) =
           exit_json \<lparr>changed = True, res_id = None, api_result = None\<rparr>))"
proof (intro conjI impI; (elim conjE)?)
  assume "state p = ''present''" "observes ClientsJson srv (name p) cs None"
  then show "\<exists>c'. snd (client_run_module srv p) =
        [GET ClientsJson (name p), POST ClientsJson c'] \<and>
      client_satisfies p c' \<and>
      (accepts srv (POST ClientsJson c') n \<longrightarrow>
         fst (client_run_module srv p) =
           exit_json \<lparr>changed = True, res_id = Some (PInt n), api_result = None\<rparr>)"
    by (rule client_row_create)
next
  assume "state p = ''present''" "observes ClientsJson srv (name p) cs (Some c)"
    "client_satisfies p c"
  then show "client_run_module srv p =
      (exit_json \<lparr>changed = False, res_id = None, api_result = None\<rparr>,
       [GET ClientsJson (name p)])"
    by (rule client_row_same)
next
  assume "state p = ''present''" "observes ClientsJson srv (name p) cs (Some c)"
    "client_wellformed c" "\<not> client_satisfies p c" "map_of c ''id'' = Some i"
  then show "\<exists>c'. snd (client_run_module srv p) =
        [GET ClientsJson (name p), PUT (ClientJson i) c'] \<and>
      client_satisfies p c' \<and>
      (accepts srv (PUT (ClientJson i) c') n \<longrightarrow>
         fst (client_run_module srv p) =
           exit_json \<lparr>changed = True, res_id = Some (PInt n), api_result = None\<rparr>)"
    by (rule client_row_update)
next
  assume "state p = ''absent''" "observes ClientsJson srv (name p) cs None"
  then show "client_run_module srv p =
      (exit_json \<lparr>changed = False, res_id = None, api_result = None\<rparr>,
       [GET ClientsJson (name p)])"
    by (rule client_row_gone)
next
  assume a: "state p = ''absent''" "observes ClientsJson srv (name p) cs (Some c)"
    "map_of c ''id'' = Some i"
  from a show "snd (client_run_module srv p) =
      [GET ClientsJson (name p), DELETE (ClientJson i)]"
    by (rule client_row_delete(1))
  assume "ok (srv (DELETE (ClientJson i)))"
  with a show "fst (client_run_module srv p) =
      exit_json \<lparr>changed = True, res_id = None, api_result = None\<rparr>"
    by (rule client_row_delete(2))
next
  assume "job_state q = ''present''" "observes ClientsJson srv (client_name q) cls (Some cl)"
    "map_of cl ''id'' = Some ci" "observes JobsJson srv (job_name q) js None"
  then show "\<exists>j'. snd (job_run_module srv q) =
        [GET ClientsJson (client_name q), GET JobsJson (job_name q), POST JobsJson j'] \<and>
      job_matches q cl j' \<and>
      (accepts srv (POST JobsJson j') n \<longrightarrow>
         fst (job_run_module srv q) =
           exit_json \<lparr>changed = True, res_id = Some (PInt n), api_result = None\<rparr>)"
    by (rule job_row_create)
next
  assume "job_state q = ''present''" "observes ClientsJson srv (client_name q) cls (Some cl)"
    "observes JobsJson srv (job_name q) js (Some j)" "job_matches q cl j"
  then show "job_run_module srv q =
      (exit_json \<lparr>changed = False, res_id = None, api_result = None\<rparr>,
       [GET ClientsJson (client_name q), GET JobsJson (job_name q)])"
    by (rule job_row_same)
next
  assume "job_state q = ''present''" "observes ClientsJson srv (client_name q) cls (Some cl)"
    "map_of cl ''id'' = Some ci" "observes JobsJson srv (job_name q) js (Some j)"
    "job_wellformed j" "\<not> job_matches q cl j" "map_of j ''id'' = Some i"
  then show "\<exists>j'. snd (job_run_module srv q) =
        [GET ClientsJson (client_name q), GET JobsJson (job_name q), PUT (JobJson i) j'] \<and>
      job_matches q cl j' \<and>
      (accepts srv (PUT (JobJson i) j') n \<longrightarrow>
         fst (job_run_module srv q) =
           exit_json \<lparr>changed = True, res_id = Some (PInt n), api_result = None\<rparr>)"
    by (rule job_row_update)
next
  assume "job_state q = ''absent''" "observes JobsJson srv (job_name q) js None"
  then show "job_run_module srv q =
      (exit_json \<lparr>changed = False, res_id = None, api_result = None\<rparr>,
       [GET JobsJson (job_name q)])"
    by (rule job_row_gone)
next
  assume a: "job_state q = ''absent''" "observes JobsJson srv (job_name q) js (Some j)"
    "map_of j ''id'' = Some i"
  from a show "snd (job_run_module srv q) = [GET JobsJson (job_name q), DELETE (JobJson i)]"
    by (rule job_row_delete(1))
  assume "ok (srv (DELETE (JobJson i)))"
  with a show "fst (job_run_module srv q) =
      exit_json \<lparr>changed = True, res_id = None, api_result = None\<rparr>"
    by (rule job_row_delete(2))
qed

theorem state_machine_witness:
  "client_run_module (example_srv [] [] (written 5)) example_client =
     (exit_json \<lparr>changed = True, res_id = Some (PInt 5), api_result = None\<rparr>,
      [GET ClientsJson ''Name1'', POST ClientsJson example_client_payload]) \<and>
   client_run_module (example_srv [remote_client] [] api_error) example_client =
     (exit_json \<lparr>changed = False, res_id = None, api_result = None\<rparr>,
      [GET ClientsJson ''Name1'']) \<and>
   client_run_module (example_srv [stale_client] [] (written 7)) example_client =
     (exit_json \<lparr>changed = True, res_id = Some (PInt 7), api_result = None\<rparr>,
      [GET ClientsJson ''Name1'', PUT (ClientJson (PInt 7)) stale_client_payload]) \<and>
   client_run_module (example_srv [] [] api_error) (example_client\<lparr>state := ''absent''\<rparr>) =
     (exit_json \<lparr>changed = False, res_id = None, api_result = None\<rparr>,
      [GET ClientsJson ''Name1'']) \<and>
   client_run_module (example_srv [remote_client] [] (written 7))
       (example_client\<lparr>state := ''absent''\<rparr>) =
     (exit_json \<lparr>changed = True, res_id = None, api_result = None\<rparr>,
      [GET ClientsJson ''Name1'', DELETE (ClientJson (PInt 7))]) \<and>
   job_run_module (example_srv [remote_client] [] (written 9)) example_job =
     (exit_json \<lparr>changed = True, res_id = Some (PInt 9), api_result = None\<rparr>,
      [GET ClientsJson ''Name1'', GET JobsJson ''job1'', POST JobsJson example_job_payload]) \<and>
   job_run_module (example_srv [remote_client] [remote_job] api_error) example_job =
     (exit_json \<lparr>changed = False, res_id = None, api_result = None\<rparr>,
      [GET ClientsJson ''Name1'', GET JobsJson ''job1'']) \<and>
   job_run_module (example_srv [remote_client] [sentinel_job] (written 3)) example_job =
     (exit_json \<lparr>changed = True, res_id = Some (PInt 3), api_result = None\<rparr>,
      [GET ClientsJson ''Name1'', GET JobsJson ''job1'', PUT (JobJson (PInt 3)) remote_job]) \<and>
   job_run_module (example_srv [remote_client] [] api_error)
       (example_job\<lparr>job_state := ''absent''\<rparr>) =
     (exit_json \<lparr>changed = False, res_id = None, api_result = None\<rparr>,
      [GET JobsJson ''job1'']) \<and>
   job_run_module (example_srv [remote_client] [remote_job] (written 3))
       (example_job\<lparr>job_state := ''absent''\<rparr>) =
     (exit_json \<lparr>changed = True, res_id = None, api_result = None\<rparr>,
      [GET JobsJson ''job1'', DELETE (JobJson (PInt 3))])"
proof -
  have 1: "client_run_module (example_srv [] [] (written 5)) example_client =
     (exit_json \<lparr>changed = True, res_id = Some (PInt 5), api_result = None\<rparr>,
      [GET ClientsJson ''Name1'', POST ClientsJson example_client_payload])"
    using state_machine [where p = example_client and srv = "example_srv [] [] (written 5)"
        and cs = "[]" and n = 5]
      example_client_create_trace [of "written 5"]
    by (auto simp: prod_eq_iff example_names observes_example accepts_written)
  have 2: "client_run_module (example_srv [remote_client] [] api_error) example_client =
     (exit_json \<lparr>changed = False, res_id = None, api_result = None\<rparr>,
      [GET ClientsJson ''Name1''])"
    using state_machine [where p = example_client
        and srv = "example_srv [remote_client] [] api_error" and cs = "[remote_client]"
        and c = remote_client]
    by (simp add: example_names observes_example example_client_satisfied)
  have 3: "client_run_module (example_srv [stale_client] [] (written 7)) example_client =
     (exit_json \<lparr>changed = True, res_id = Some (PInt 7), api_result = None\<rparr>,
      [GET ClientsJson ''Name1'', PUT (ClientJson (PInt 7)) stale_client_payload])"
    using state_machine [where p = example_client
        and srv = "example_srv [stale_client] [] (written 7)" and cs = "[stale_client]"
        and c = stale_client and i = "PInt 7" and n = 7]
      example_client_update_trace [of "written 7"]
    by (auto simp: prod_eq_iff example_names observes_example accepts_written
          stale_client_wellformed stale_client_differs stale_client_id)
  have 4: "client_run_module (example_srv [] [] api_error)
       (example_client\<lparr>state := ''absent''\<rparr>) =
     (exit_json \<lparr>changed = False, res_id = None, api_result = None\<rparr>,
      [GET ClientsJson ''Name1''])"
    using state_machine [where p = "example_client\<lparr>state := ''absent''\<rparr>"
        and srv = "example_srv [] [] api_error" and cs = "[]"]
    by (simp add: example_names observes_example)
  have 5: "client_run_module (example_srv [remote_client] [] (written 7))
       (example_client\<lparr>state := ''absent''\<rparr>) =
     (exit_json \<lparr>changed = True, res_id = None, api_result = None\<rparr>,
      [GET ClientsJson ''Name1'', DELETE (ClientJson (PInt 7))])"
    using state_machine [where p = "example_client\<lparr>state := ''absent''\<rparr>"
        and srv = "example_srv [remote_client] [] (written 7)" and cs = "[remote_client]"
        and c = remote_client and i = "PInt 7"]
    by (simp add: prod_eq_iff example_names observes_example ok_written remote_ids)
  have 6: "job_run_module (example_srv [remote_client] [] (written 9)) example_job =
     (exit_json \<lparr>changed = True, res_id = Some (PInt 9), api_result = None\<rparr>,
      [GET ClientsJson ''Name1'', GET JobsJson ''job1'', POST JobsJson example_job_payload])"
    using state_machine [where q = example_job
        and srv = "example_srv [remote_client] [] (written 9)" and cls = "[remote_client]"
        and cl = remote_client and ci = "PInt 7" and js = "[]" and n = 9]
      example_job_create_trace [of "written 9"]
    by (auto simp: prod_eq_iff example_names observes_example accepts_written remote_ids)
  have 7: "job_run_module (example_srv [remote_client] [remote_job] api_error) example_job =
     (exit_json \<lparr>changed = False, res_id = None, api_result = None\<rparr>,
      [GET ClientsJson ''Name1'', GET JobsJson ''job1''])"
    using state_machine [where q = example_job
        and srv = "example_srv [remote_client] [remote_job] api_error"
        and cls = "[remote_client]" and cl = remote_client and js = "[remote_job]"
        and j = remote_job]
    by (simp add: example_names observes_example example_job_satisfied)
  have 8: "job_run_module (example_srv [remote_client] [sentinel_job] (written 3)) example_job =
     (exit_json \<lparr>changed = True, res_id = Some (PInt 3), api_result = None\<rparr>,
      [GET ClientsJson ''Name1'', GET JobsJson ''job1'', PUT (JobJson (PInt 3)) remote_job])"
    using state_machine [where q = example_job
        and srv = "example_srv [remote_client] [sentinel_job] (written 3)"
        and cls = "[remote_client]" and cl = remote_client and ci = "PInt 7"
        and js = "[sentinel_job]" and j = sentinel_job and i = "PInt 3" and n = 3]
      example_job_update_trace [of "written 3"]
    by (auto simp: prod_eq_iff example_names observes_example accepts_written remote_ids
          sentinel_job_wellformed sentinel_job_differs)
  have 9: "job_run_module (example_srv [remote_client] [] api_error)
       (example_job\<lparr>job_state := ''absent''\<rparr>) =
     (exit_json \<lparr>changed = False, res_id = None, api_result = None\<rparr>,
      [GET JobsJson ''job1''])"
    using state_machine [where q = "example_job\<lparr>job_state := ''absent''\<rparr>"
        and srv = "example_srv [remote_client] [] api_error" and js = "[]"]
    by (simp add: example_names observes_example)
  have 10: "job_run_module (example_srv [remote_client] [remote_job] (written 3))
       (example_job\<lparr>job_state := ''absent''\<rparr>) =
     (exit_json \<lparr>changed = True, res_id = None, api_result = None\<rparr>,
      [GET JobsJson ''job1'', DELETE (JobJson (PInt 3))])"
    using state_machine [where q = "example_job\<lparr>job_state := ''absent''\<rparr>"
        and srv = "example_srv [remote_client] [remote_job] (written 3)"
        and js = "[remote_job]" and j = remote_job and i = "PInt 3"]
    by (simp add: prod_eq_iff example_names observes_example ok_written remote_ids)
  from 1 2 3 4 5 6 7 8 9 10 show ?thesis by simp
qed

subsection \<open>Idempotence\<close>

text \<open>
  Claim C2, as amended. The comparison of a fetched resource with the desired
  specification reports no change if and only if every field of the resource equals
  its desired value, scalar and nullable fields by value (a remote empty string is
  not a desired \<^verbatim>\<open>null\<close>), the script and recipient lists as sets, the Client quota read
  as an integer; this holds for Client and Job. A present-reconciliation that finds
  such a resource issues the lookups only and reports \<open>changed = False\<close>. A second
  run finds what the first one left: after a run that found a well-formed resource
  and either wrote nothing or sent one update, and after a run that sent one create,
  a run against a service that lists the resource as it was sent (a created one with
  its new identifier) issues the lookups only and reports \<open>changed = False\<close>.
\<close>

theorem idempotence:
  "((\<exists>c'. client_diff p c = Inr (c', False)) \<longleftrightarrow> client_satisfies p c) \<and>
   ((\<exists>j'. job_diff q cl j = Inr (j', False)) \<longleftrightarrow> job_matches q cl j) \<and>
   (state p = ''present'' \<and> observes ClientsJson srv (name p) cs (Some c) \<and>
    client_satisfies p c \<longrightarrow>
      client_run_module srv p =
        (exit_json \<lparr>changed = False, res_id = None, api_result = None\<rparr>,
         [GET ClientsJson (name p)])) \<and>
   (job_state q = ''present'' \<and> observes ClientsJson srv (client_name q) cls (Some cl) \<and>
    observes JobsJson srv (job_name q) js (Some j) \<and> job_matches q cl j \<longrightarrow>
      job_run_module srv q =
        (exit_json \<lparr>changed = False, res_id = None, api_result = None\<rparr>,
         [GET ClientsJson (client_name q), GET JobsJson (job_name q)])) \<and>
   (state p = ''present'' \<and> observes ClientsJson srv (name p) cs (Some c) \<and>
    client_wellformed c \<and> map_of c ''id'' = Some i \<longrightarrow>
      (\<exists>c'. (snd (client_run_module srv p) = [GET ClientsJson (name p)] \<and> c' = c \<or>
             snd (client_run_module srv p) =
               [GET ClientsJson (name p), PUT (ClientJson i) c']) \<and>
         (\<forall>srv' cs'. observes ClientsJson srv' (name p) cs' (Some c') \<longrightarrow>
            client_run_module srv' p =
              (exit_json \<lparr>changed = False, res_id = None, api_result = None\<rparr>,
               [GET ClientsJson (name p)])))) \<and>
   (state p = ''present'' \<and> observes ClientsJson srv (name p) cs None \<longrightarrow>
      (\<exists>c'. snd (client_run_module srv p) =
             [GET ClientsJson (name p), POST ClientsJson c'] \<and>
         (\<forall>srv' cs' i'. observes ClientsJson srv' (name p) cs' (Some ((''id'', i') # c')) \<longrightarrow>
            client_run_module srv' p =
              (exit_json \<lparr>changed = False, res_id = None, api_result = None\<rparr>,
               [GET ClientsJson (name p)])))) \<and>
   (job_state q = ''present'' \<and> observes ClientsJson srv (client_name q) cls (Some cl) \<and>
    map_of cl ''id'' = Some ci \<and> observes JobsJson srv (job_name q) js (Some j) \<and>
    job_wellformed j \<and> map_of j ''id'' = Some i \<longrightarrow>
      (\<exists>j'. (snd (job_run_module srv q) =
               [GET ClientsJson (client_name q), GET JobsJson (job_name q)] \<and> j' = j \<or>
             snd (job_run_module srv q) =
               [GET ClientsJson (client_name q), GET JobsJson (job_name q),
                PUT (JobJson i) j']) \<and>
         (\<forall>srv' cls' cl' js'. observes ClientsJson srv' (client_name q) cls' (Some cl') \<and>
            map_of cl' ''id'' = Some ci \<and>
            observes JobsJson srv' (job_name q) js' (Some j') \<longrightarrow>
            job_run_module srv' q =
              (exit_json \<lparr>changed = False, res_id = None, api_result = None\<rparr>,
               [GET ClientsJson (client_name q), GET JobsJson (job_name q)])))) \<and>
   (job_state q = ''present'' \<and> observes ClientsJson srv (client_name q) cls (Some cl) \<and>
    map_of cl ''id'' = Some ci \<and> observes JobsJson srv (job_name q) js None \<longrightarrow>
      (\<exists>j'. snd (job_run_module srv q) =
             [GET ClientsJson (client_name q), GET JobsJson (job_name q), POST JobsJson j'] \<and>
         (\<forall>srv' cls' cl' js' i'. observes ClientsJson srv' (client_name q) cls' (Some cl') \<and>
            map_of cl' ''id'' = Some ci \<and>
            observes JobsJson srv' (job_name q) js' (Some ((''id'', i') # j')) \<longrightarrow>
            job_run_module srv' q =
              (exit_json \<lparr>changed = False, res_id = None, api_result = None\<rparr>,
               [GET ClientsJson (client_name q), GET JobsJson (job_name q)]))))"
proof (intro conjI impI; (elim conjE)?)
  show "(\<exists>c'. client_diff p c = Inr (c', False)) \<longleftrightarrow> client_satisfies p c"
    by (rule client_diff_unchanged_iff)
next
  show "(\<exists>j'. job_diff q cl j = Inr (j', False)) \<longleftrightarrow> job_matches q cl j"
    by (rule job_diff_unchanged_iff)
next
  assume "state p = ''present''" "observes ClientsJson srv (name p) cs (Some c)"
    "client_satisfies p c"
  then show "client_run_module srv p =
      (exit_json \<lparr>changed = False, res_id = None, api_result = None\<rparr>,
       [GET ClientsJson (name p)])"
    by (rule client_row_same)
next
  assume "job_state q = ''present''" "observes ClientsJson srv (client_name q) cls (Some cl)"
    "observes JobsJson srv (job_name q) js (Some j)" "job_matches q cl j"
  then show "job_run_module srv q =
      (exit_json \<lparr>changed = False, res_id = None, api_result = None\<rparr>,
       [GET ClientsJson (client_name q), GET JobsJson (job_name q)])"
    by (rule job_row_same)
next
  assume "state p = ''present''" "observes ClientsJson srv (name p) cs (Some c)"
    "client_wellformed c" "map_of c ''id'' = Some i"
  then show "\<exists>c'. (snd (client_run_module srv p) = [GET ClientsJson (name p)] \<and> c' = c \<or>
          snd (client_run_module srv p) = [GET ClientsJson (name p), PUT (ClientJson i) c']) \<and>
      (\<forall>srv' cs'. observes ClientsJson srv' (name p) cs' (Some c') \<longrightarrow>
         client_run_module srv' p =
           (exit_json \<lparr>changed = False, res_id = None, api_result = None\<rparr>,
            [GET ClientsJson (name p)]))"
    by (rule client_rerun_update)
next
  assume "state p = ''present''" "observes ClientsJson srv (name p) cs None"
  then show "\<exists>c'. snd (client_run_module srv p) =
        [GET ClientsJson (name p), POST ClientsJson c'] \<and>
      (\<forall>srv' cs' i'. observes ClientsJson srv' (name p) cs' (Some ((''id'', i') # c')) \<longrightarrow>
         client_run_module srv' p =
           (exit_json \<lparr>changed = False, res_id = None, api_result = None\<rparr>,
            [GET ClientsJson (name p)]))"
    by (rule client_rerun_create)
next
  assume "job_state q = ''present''" "observes ClientsJson srv (client_name q) cls (Some cl)"
    "map_of cl ''id'' = Some ci" "observes JobsJson srv (job_name q) js (Some j)"
    "job_wellformed j" "map_of j ''id'' = Some i"
  then show "\<exists>j'. (snd (job_run_module srv q) =
            [GET ClientsJson (client_name q), GET JobsJson (job_name q)] \<and> j' = j \<or>
          snd (job_run_module srv q) =
            [GET ClientsJson (client_name q), GET JobsJson (job_name q), PUT (JobJson i) j']) \<and>
      (\<forall>srv' cls' cl' js'. observes ClientsJson srv' (client_name q) cls' (Some cl') \<and>
         map_of cl' ''id'' = Some ci \<and> observes JobsJson srv' (job_name q) js' (Some j') \<longrightarrow>
         job_run_module srv' q =
           (exit_json \<lparr>changed = False, res_id = None, api_result = None\<rparr>,
            [GET ClientsJson (client_name q), GET JobsJson (job_name q)]))"
    by (rule job_rerun_update)
next
  assume "job_state q = ''present''" "observes ClientsJson srv (client_name q) cls (Some cl)"
    "map_of cl ''id'' = Some ci" "observes JobsJson srv (job_name q) js None"
  then show "\<exists>j'. snd (job_run_module srv q) =
        [GET ClientsJson (client_name q), GET JobsJson (job_name q), POST JobsJson j'] \<and>
      (\<forall>srv' cls' cl' js' i'. observes ClientsJson srv' (client_name q) cls' (Some cl') \<and>
         map_of cl' ''id'' = Some ci \<and>
         observes JobsJson srv' (job_name q) js' (Some ((''id'', i') # j')) \<longrightarrow>
         job_run_module srv' q =
           (exit_json \<lparr>changed = False, res_id = None, api_result = None\<rparr>,
            [GET ClientsJson (client_name q), GET JobsJson (job_name q)]))"
    by (rule job_rerun_create)
qed

theorem idempotence_witness:
  "client_satisfies example_client remote_client \<and>
   client_run_module (example_srv [remote_client] [] api_error) example_client =
     (exit_json \<lparr>changed = False, res_id = None, api_result = None\<rparr>,
      [GET ClientsJson ''Name1'']) \<and>
   job_matches example_job remote_client remote_job \<and>
   job_run_module (example_srv [remote_client] [remote_job] api_error) example_job =
     (exit_json \<lparr>changed = False, res_id = None, api_result = None\<rparr>,
      [GET ClientsJson ''Name1'', GET JobsJson ''job1'']) \<and>
   snd (client_run_module (example_srv [stale_client] [] (written 7)) example_client) =
     [GET ClientsJson ''Name1'', PUT (ClientJson (PInt 7)) stale_client_payload] \<and>
   client_run_module (example_srv [stale_client_payload] [] api_error) example_client =
     (exit_json \<lparr>changed = False, res_id = None, api_result = None\<rparr>,
      [GET ClientsJson ''Name1'']) \<and>
   snd (client_run_module (example_srv [] [] (written 5)) example_client) =
     [GET ClientsJson ''Name1'', POST ClientsJson example_client_payload] \<and>
   client_run_module (example_srv [(''id'', PInt 5) # example_client_payload] [] api_error)
       example_client =
     (exit_json \<lparr>changed = False, res_id = None, api_result = None\<rparr>,
      [GET ClientsJson ''Name1'']) \<and>
   snd (job_run_module (example_srv [remote_client] [] (written 9)) example_job) =
     [GET ClientsJson ''Name1'', GET JobsJson ''job1'', POST JobsJson example_job_payload] \<and>
   job_run_module (example_srv [remote_client] [(''id'', PInt 9) # example_job_payload] api_error)
       example_job =
     (exit_json \<lparr>changed = False, res_id = None, api_result = None\<rparr>,
      [GET ClientsJson ''Name1'', GET JobsJson ''job1''])"
proof -
  have 1: "client_run_module (example_srv [remote_client] [] api_error) example_client =
     (exit_json \<lparr>changed = False, res_id = None, api_result = None\<rparr>,
      [GET ClientsJson ''Name1''])"
    using idempotence [where p = example_client
        and srv = "example_srv [remote_client] [] api_error" and cs = "[remote_client]"
        and c = remote_client, THEN conjunct2, THEN conjunct2, THEN conjunct1]
    by (simp add: example_names observes_example example_client_satisfied)
  have 2: "job_run_module (example_srv [remote_client] [remote_job] api_error) example_job =
     (exit_json \<lparr>changed = False, res_id = None, api_result = None\<rparr>,
      [GET ClientsJson ''Name1'', GET JobsJson ''job1''])"
    using idempotence [where q = example_job
        and srv = "example_srv [remote_client] [remote_job] api_error"
        and cls = "[remote_client]" and cl = remote_client and js = "[remote_job]"
        and j = remote_job, THEN conjunct2, THEN conjunct2, THEN conjunct2, THEN conjunct1]
    by (simp add: example_names observes_example example_job_satisfied)
  have 3: "client_run_module (example_srv [stale_client_payload] [] api_error) example_client =
     (exit_json \<lparr>changed = False, res_id = None, api_result = None\<rparr>,
      [GET ClientsJson ''Name1''])"
  proof -
    from idempotence [where p = example_client
        and srv = "example_srv [stale_client] [] (written 7)" and cs = "[stale_client]"
        and c = stale_client and i = "PInt 7", THEN conjunct2, THEN conjunct2, THEN conjunct2,
        THEN conjunct2, THEN conjunct1]
    obtain c' where
      a: "snd (client_run_module (example_srv [stale_client] [] (written 7)) example_client) =
            [GET ClientsJson (name example_client)] \<and> c' = stale_client \<or>
          snd (client_run_module (example_srv [stale_client] [] (written 7)) example_client) =
            [GET ClientsJson (name example_client), PUT (ClientJson (PInt 7)) c']"
      and b: "\<forall>srv' cs'. observes ClientsJson srv' (name example_client) cs' (Some c') \<longrightarrow>
          client_run_module srv' example_client =
            (exit_json \<lparr>changed = False, res_id = None, api_result = None\<rparr>,
             [GET ClientsJson (name example_client)])"
      using example_names(1) observes_example(1) stale_client_wellformed stale_client_id
      by blast
    from a example_client_update_trace [of "written 7"] have "c' = stale_client_payload"
      by simp
    with b observes_example(1) [of stale_client_payload "[]" api_error "name example_client"]
    show ?thesis by (auto simp: example_names)
  qed
  have 4: "client_run_module
       (example_srv [(''id'', PInt 5) # example_client_payload] [] api_error) example_client =
     (exit_json \<lparr>changed = False, res_id = None, api_result = None\<rparr>,
      [GET ClientsJson ''Name1''])"
  proof -
    from idempotence [where p = example_client and srv = "example_srv [] [] (written 5)"
        and cs = "[]", THEN conjunct2, THEN conjunct2, THEN conjunct2, THEN conjunct2,
        THEN conjunct2, THEN conjunct1]
    obtain c' where
      a: "snd (client_run_module (example_srv [] [] (written 5)) example_client) =
            [GET ClientsJson (name example_client), POST ClientsJson c']"
      and b: "\<forall>srv' cs' i'.
          observes ClientsJson srv' (name example_client) cs' (Some ((''id'', i') # c')) \<longrightarrow>
          client_run_module srv' example_client =
            (exit_json \<lparr>changed = False, res_id = None, api_result = None\<rparr>,
             [GET ClientsJson (name example_client)])"
      using example_names(1) observes_example(2) by blast
    from a example_client_create_trace [of "written 5"] have "c' = example_client_payload"
      by simp
    with b observes_example(1) [of "(''id'', PInt 5) # example_client_payload" "[]" api_error
        "name example_client"]
    show ?thesis by (auto simp: example_names)
  qed
  have 5: "job_run_module
       (example_srv [remote_client] [(''id'', PInt 9) # example_job_payload] api_error)
       example_job =
     (exit_json \<lparr>changed = False, res_id = None, api_result = None\<rparr>,
      [GET ClientsJson ''Name1'', GET JobsJson ''job1''])"
  proof -
    from idempotence [where q = example_job
        and srv = "example_srv [remote_client] [] (written 9)" and cls = "[remote_client]"
        and cl = remote_client and ci = "PInt 7" and js = "[]",
        THEN conjunct2, THEN conjunct2, THEN conjunct2, THEN conjunct2,
        THEN conjunct2, THEN conjunct2, THEN conjunct2]
    obtain j' where
      a: "snd (job_run_module (example_srv [remote_client] [] (written 9)) example_job) =
            [GET ClientsJson (client_name example_job), GET JobsJson (job_name example_job),
             POST JobsJson j']"
      and b: "\<forall>srv' cls' cl' js' i'.
          observes ClientsJson srv' (client_name example_job) cls' (Some cl') \<and>
          map_of cl' ''id'' = Some (PInt 7) \<and>
          observes JobsJson srv' (job_name example_job) js' (Some ((''id'', i') # j')) \<longrightarrow>
          job_run_module srv' example_job =
            (exit_json \<lparr>changed = False, res_id = None, api_result = None\<rparr>,
             [GET ClientsJson (client_name example_job), GET JobsJson (job_name example_job)])"
      using example_names(3) observes_example(1,4) remote_ids(1) by blast
    from a example_job_create_trace [of "written 9"] have j': "j' = example_job_payload"
      by simp
    have "job_run_module (example_srv [remote_client] [(''id'', PInt 9) # j'] api_error)
        example_job =
      (exit_json \<lparr>changed = False, res_id = None, api_result = None\<rparr>,
       [GET ClientsJson (client_name example_job), GET JobsJson (job_name example_job)])"
      using b remote_ids(1)
        observes_example(1) [of remote_client "[(''id'', PInt 9) # j']"
          api_error "client_name example_job"]
        observes_example(3) [of "[remote_client]" "(''id'', PInt 9) # j'"
          api_error "job_name example_job"]
      by blast
    with j' show ?thesis by (simp add: example_names)
  qed
  from 1 2 3 4 5 example_client_satisfied example_job_satisfied
    example_client_update_trace [of "written 7"] example_client_create_trace [of "written 5"]
    example_job_create_trace [of "written 9"]
  show ?thesis by simp
qed

text \<open>
  The claim as stated fails for the comparison semantics of the specification, in
  which an empty string in a nullable field stands for \<^verbatim>\<open>null\<close>: the stored Job whose
  \<^verbatim>\<open>exclude\<close> is the empty string satisfies the desired specification, and yet the
  comparison reports a change and the run sends one update.
\<close>

theorem sentinel_job_is_updated:
  "job_satisfies example_job remote_client sentinel_job \<and>
   job_diff example_job remote_client sentinel_job = Inr (remote_job, True) \<and>
   job_run_module (example_srv [remote_client] [sentinel_job] (written 3)) example_job =
     (exit_json \<lparr>changed = True, res_id = Some (PInt 3), api_result = None\<rparr>,
      [GET ClientsJson ''Name1'', GET JobsJson ''job1'', PUT (JobJson (PInt 3)) remote_job])"
  using sentinel_job_satisfies sentinel_job_diff example_job_update_run by simp

subsection \<open>Comparison kinds\<close>

lemma exec_stmts_differs_member:
  assumes "exec_stmts ss (d, ch) = Inr (d', ch')" "distinct (map fst ss)"
    and "(k, c, Inr v) \<in> set ss" "map_of d k = Some r" "differs c r v = Inr True"
  shows "ch' \<and> map_of d' k = Some v"
  using assms
proof (induction ss arbitrary: d ch)
  case Nil
  then show ?case by simp
next
  case (Cons s ss)
  from Cons.prems(1) obtain d1 ch1 where 1: "exec_stmt s (d, ch) = Inr (d1, ch1)"
    and 2: "exec_stmts ss (d1, ch1) = Inr (d', ch')"
    by (auto split: sum.splits)
  from Cons.prems(2) have dist: "fst s \<notin> fst ` set ss" "distinct (map fst ss)" by auto
  show ?case
  proof (cases "s = (k, c, Inr v)")
    case True
    with 1 Cons.prems(4,5) have d1: "d1 = AList.update k v d" "ch1"
      by (simp_all add: getitem_def)
    from True dist(1) have "k \<notin> fst ` set ss" by simp
    with 2 have "map_of d' k = map_of d1 k" by (rule exec_stmts_other_key)
    moreover from 2 d1(2) have ch' using exec_stmts_changed by simp
    ultimately show ?thesis using d1(1) by (simp add: update_conv')
  next
    case False
    with Cons.prems(3) have mem: "(k, c, Inr v) \<in> set ss" by simp
    then have "k \<in> fst ` set ss" by force
    with dist(1) have "k \<noteq> fst s" by blast
    with 1 have "map_of d1 k = map_of d k" by (rule exec_stmt_other_key)
    with Cons.prems(4) have "map_of d1 k = Some r" by simp
    from Cons.IH [OF 2 dist(2) mem this Cons.prems(5)] show ?thesis .
  qed
qed










subsection \<open>The quota coercion\<close>

lemma client_diff_satisfied:
  assumes "client_satisfies p c"
  shows "client_diff p c = Inr (AList.update ''quota'' (PInt (quota p)) c, False)"
proof -
  from assms obtain q where q: "map_of c ''quota'' = Some q" "py_int q = Inr (quota p)"
    by (auto simp: client_satisfies_def quota_equal_def split: option.splits)
  from assms obtain c' where "client_diff p c = Inr (c', False)"
    using client_diff_unchanged_iff by blast
  then show ?thesis
    by (simp add: client_diff_coerce [OF q] exec_stmts_unchanged_iff)
qed

lemma string_jobs_client_diff:
  "client_diff example_client string_jobs_client =
     Inr (AList.update ''quota'' (PInt 20000) remote_client, True)"
  by (simp add: client_diff_def client_stmts_def string_jobs_client_def example_client_def
        remote_client_def value_defs)

text \<open>
  Claim C10. The Client comparison starts by replacing the remote quota with its
  integer reading, so the statements run on the coerced resource; the string
  \<^verbatim>\<open>"20000"\<close> reads as 20000. A resource that satisfies the desired specification,
  its quota in whatever serialisation reads as the desired integer, is left without
  a change. No other field is coerced: a numeric string in another field whose
  desired value is an integer is a change, and the field is set to the integer.
\<close>

theorem quota_is_coerced:
  "py_int (PStr ''20000'') = Inr 20000 \<and>
   (map_of c ''quota'' = Some r \<and> py_int r = Inr n \<longrightarrow>
      client_diff p c = exec_stmts (client_stmts p) (AList.update ''quota'' (PInt n) c, False)) \<and>
   (client_satisfies p c \<longrightarrow>
      client_diff p c = Inr (AList.update ''quota'' (PInt (quota p)) c, False)) \<and>
   (client_diff p c = Inr (c', ch) \<and> (k, cmp, Inr (PInt m)) \<in> set (client_stmts p) \<and>
    k \<noteq> ''quota'' \<and> map_of c k = Some (PStr s) \<longrightarrow>
      ch \<and> map_of c' k = Some (PInt m))"
proof (intro conjI impI; (elim conjE)?)
  show "py_int (PStr ''20000'') = Inr 20000"
    by (simp add: value_defs)
next
  assume "map_of c ''quota'' = Some r" "py_int r = Inr n"
  then show "client_diff p c =
      exec_stmts (client_stmts p) (AList.update ''quota'' (PInt n) c, False)"
    by (rule client_diff_coerce)
next
  assume "client_satisfies p c"
  then show "client_diff p c = Inr (AList.update ''quota'' (PInt (quota p)) c, False)"
    by (rule client_diff_satisfied)
next
  assume d: "client_diff p c = Inr (c', ch)"
    and mem: "(k, cmp, Inr (PInt m)) \<in> set (client_stmts p)"
    and k: "k \<noteq> ''quota''" "map_of c k = Some (PStr s)"
  from d obtain q n where q: "map_of c ''quota'' = Some q" "py_int q = Inr n"
    by (auto simp: client_diff_def getitem_def split: option.splits sum.splits)
  with d have run: "exec_stmts (client_stmts p) (AList.update ''quota'' (PInt n) c, False)
      = Inr (c', ch)"
    by (simp add: client_diff_coerce)
  from mem have "cmp = Plain"
    by (auto simp: client_stmts_def int_list_def)
  then have diff: "differs cmp (PStr s) (PInt m) = Inr True"
    by simp
  from k have "map_of (AList.update ''quota'' (PInt n) c) k = Some (PStr s)"
    by (simp add: update_conv')
  with run client_stmts_distinct mem have "ch \<and> map_of c' k = Some (PInt m)"
    using diff by (rule exec_stmts_differs_member)
  then show ch "map_of c' k = Some (PInt m)" by simp_all
qed

theorem quota_is_coerced_witness:
  "client_satisfies example_client remote_client \<and>
   map_of remote_client ''quota'' = Some (PStr ''20000'') \<and>
   client_diff example_client remote_client =
     Inr (AList.update ''quota'' (PInt 20000) remote_client, False) \<and>
   (''maxParallelJobs'', Plain, Inr (PInt 4)) \<in> set (client_stmts example_client) \<and>
   map_of string_jobs_client ''maxParallelJobs'' = Some (PStr ''4'') \<and>
   map_of (AList.update ''quota'' (PInt 20000) remote_client) ''maxParallelJobs'' = Some (PInt 4)"
  using quota_is_coerced [where p = example_client and c = remote_client]
    quota_is_coerced [where p = example_client and c = string_jobs_client
      and c' = "AList.update ''quota'' (PInt 20000) remote_client" and ch = True
      and k = "''maxParallelJobs''" and cmp = Plain and m = 4 and s = "''4''"]
    example_client_satisfied string_jobs_client_diff
  by (simp add: example_client_def client_stmts_def string_jobs_client_def remote_client_def
        update_conv')

subsection \<open>Failures\<close>

text \<open>
  Claim C4, as amended. A Job reconciliation with state \<^verbatim>\<open>present\<close> whose client name
  resolves to no Client ends with \<^verbatim>\<open>fail_json\<close> after the one lookup: no create and no
  update is issued, \<open>changed\<close> is \<open>False\<close>, and the error carries the title
  \<^verbatim>\<open>Client name not found\<close> and the detail \<^verbatim>\<open>Client name <name> not found\<close>, the name
  standing there without quotes.
\<close>

theorem missing_client_fails_fast:
  "job_state q = ''present'' \<and> fst (get_client_by_name srv (client_name q)) = Inr None \<longrightarrow>
     job_run_module srv q =
       (fail_json ''Play failed''
          \<lparr>changed = False, res_id = None,
           api_result = Some (JsonBody (Object
             [(''title'', PStr ''Client name not found''),
              (''detail'', PStr (''Client name '' @ client_name q @ '' not found''))]))\<rparr>,
        [GET ClientsJson (client_name q)])"
  using job_run_no_client [of q srv] by (simp add: client_not_found_def)

theorem missing_client_fails_fast_witness:
  "job_state example_job = ''present'' \<and>
   fst (get_client_by_name (example_srv [] [remote_job] (written 9)) (client_name example_job))
     = Inr None \<and>
   job_run_module (example_srv [] [remote_job] (written 9)) example_job =
     (fail_json ''Play failed''
        \<lparr>changed = False, res_id = None,
         api_result = Some (JsonBody (Object
           [(''title'', PStr ''Client name not found''),
            (''detail'', PStr ''Client name Name1 not found'')]))\<rparr>,
      [GET ClientsJson ''Name1''])"
  using missing_client_fails_fast [of example_job "example_srv [] [remote_job] (written 9)"]
    example_srv_no_client [of "[remote_job]" "written 9" "''Name1''"]
  by (simp add: example_job_def)

text \<open>
  The claim as stated asks for the name in single quotes; the run of the witness does
  not report that error.
\<close>

theorem missing_client_detail_unquoted:
  "fst (job_run_module (example_srv [] [remote_job] (written 9)) example_job) \<noteq>
     fail_json ''Play failed''
       \<lparr>changed = False, res_id = None,
        api_result = Some (JsonBody (Object (client_not_found_quoted ''Name1'')))\<rparr>"
  using job_run_no_client [of example_job "example_srv [] [remote_job] (written 9)"]
    example_srv_no_client [of "[remote_job]" "written 9" "''Name1''"]
  by (simp add: example_job_def client_not_found_def client_not_found_quoted_def)

lemma create_no_id:
  "json (srv (POST ep d)) = Some b \<Longrightarrow> \<not> contains_id b \<Longrightarrow>
   create ep srv d = (Inr (ResponseObj (srv (POST ep d))), [POST ep d])"
  by (simp add: create_def Let_def)

text \<open>
  Claim C7. When the answer to a creation is JSON without an \<^verbatim>\<open>id\<close>, both modules end
  with \<^verbatim>\<open>fail_json\<close> and \<open>changed = False\<close>. The Job module attaches the body of the
  answer (\<^verbatim>\<open>id.json()\<close>, line 350); the Client module attaches the response object
  itself (\<^verbatim>\<open>id\<close>, line 286), which is not the error body its \<^verbatim>\<open>RETURN\<close> documentation
  promises.
\<close>

theorem create_failure_result:
  "(state p = ''present'' \<and> fst (get_client_by_name srv (name p)) = Inr None \<and>
    json (srv (POST ClientsJson (client_new p))) = Some b \<and> \<not> contains_id b \<longrightarrow>
      fst (client_run_module srv p) =
        fail_json ''Client creation failed''
          \<lparr>changed = False, res_id = None,
           api_result = Some (ResponseObj (srv (POST ClientsJson (client_new p))))\<rparr>) \<and>
   (job_state q = ''present'' \<and> fst (get_client_by_name srv (client_name q)) = Inr (Some cl) \<and>
    fst (get_job_by_name srv (job_name q)) = Inr None \<and> job_new q cl = Inr j \<and>
    json (srv (POST JobsJson j)) = Some b' \<and> \<not> contains_id b' \<longrightarrow>
      fst (job_run_module srv q) =
        fail_json ''Job creation failed''
          \<lparr>changed = False, res_id = None, api_result = Some (JsonBody b')\<rparr>)"
proof (intro conjI impI; elim conjE)
  assume a: "state p = ''present''" "fst (get_client_by_name srv (name p)) = Inr None"
    and b: "json (srv (POST ClientsJson (client_new p))) = Some b" "\<not> contains_id b"
  show "fst (client_run_module srv p) =
      fail_json ''Client creation failed''
        \<lparr>changed = False, res_id = None,
         api_result = Some (ResponseObj (srv (POST ClientsJson (client_new p))))\<rparr>"
    by (simp add: client_run_create [OF a] client_apply_create_def create_client_def
          create_no_id [of srv ClientsJson "client_new p" b, OF b] result0_def)
next
  assume a: "job_state q = ''present''"
    "fst (get_client_by_name srv (client_name q)) = Inr (Some cl)"
    "fst (get_job_by_name srv (job_name q)) = Inr None" "job_new q cl = Inr j"
    and b: "json (srv (POST JobsJson j)) = Some b'" "\<not> contains_id b'"
  show "fst (job_run_module srv q) =
      fail_json ''Job creation failed''
        \<lparr>changed = False, res_id = None, api_result = Some (JsonBody b')\<rparr>"
    by (simp add: job_run_create [OF a] job_apply_create_def create_job_def
          create_no_id [of srv JobsJson j b', OF b] b(1) result0_def)
qed

theorem create_failure_result_witness:
  "state example_client = ''present'' \<and>
   fst (get_client_by_name (example_srv [] [] api_error) (name example_client)) = Inr None \<and>
   json (example_srv [] [] api_error (POST ClientsJson (client_new example_client)))
     = json api_error \<and>
   fst (client_run_module (example_srv [] [] api_error) example_client) =
     fail_json ''Client creation failed''
       \<lparr>changed = False, res_id = None, api_result = Some (ResponseObj api_error)\<rparr> \<and>
   ResponseObj api_error \<noteq>
     JsonBody (Object [(''title'', PStr ''An error occurred''),
                       (''detail'', PStr ''Script 1 is not a client pre script'')])"
  using create_failure_result [where p = example_client and srv = "example_srv [] [] api_error"
      and b = "Object [(''title'', PStr ''An error occurred''),
                       (''detail'', PStr ''Script 1 is not a client pre script'')]"]
    example_srv_no_client [of "[]" api_error "''Name1''"]
  by (simp add: example_client_def api_error_def)

subsection \<open>One changed field\<close>

lemma exec_stmts_one_differs:
  assumes mem: "(k, c, Inr v) \<in> set ss" and dist: "distinct (map fst ss)"
    and r: "map_of d k = Some r" "differs c r v = Inr True"
    and rest: "\<forall>s\<in>set ss. fst s \<noteq> k \<longrightarrow> field_matches d s"
  shows "exec_stmts ss (d, False) = Inr (AList.update k v d, True)"
proof -
  from mem obtain pre post where ss: "ss = pre @ (k, c, Inr v) # post"
    by (auto dest: split_list)
  from dist have "k \<notin> fst ` set pre" "k \<notin> fst ` set post"
    unfolding ss by auto
  then have other: "\<forall>s\<in>set pre \<union> set post. fst s \<noteq> k"
    by auto
  have "list_all (field_matches d) pre" "list_all (field_matches d) post"
    unfolding list_all_iff using rest other by (auto simp: ss)
  with ss dist show ?thesis
    using r by (rule exec_stmts_single_change)
qed

lemma update_quota_same:
  "map_of c ''quota'' = Some (PInt n) \<Longrightarrow> AList.update ''quota'' (PInt n) c = c"
  by (rule update_triv)

lemma list_all_field_matches_map_of:
  assumes "map_of d' = map_of d"
  shows "list_all (field_matches d') ss = list_all (field_matches d) ss"
proof -
  have "field_matches d' s = field_matches d s" for s
    by (rule field_matches_cong) (simp add: assms)
  then have "field_matches d' = field_matches d" by (simp add: fun_eq_iff)
  then show ?thesis by simp
qed

lemma exec_stmts_sole_difference:
  assumes mem: "(k, Plain, Inr v) \<in> set ss" and dist: "distinct (map fst ss)"
    and has: "map_of d k = Some old"
    and some: "\<not> list_all (field_matches d) ss"
    and upd: "list_all (field_matches (AList.update k v d)) ss"
  shows "exec_stmts ss (d, False) = Inr (AList.update k v d, True)"
proof -
  have rest: "\<forall>s\<in>set ss. fst s \<noteq> k \<longrightarrow> field_matches d s"
  proof (intro ballI impI)
    fix s assume s: "s \<in> set ss" "fst s \<noteq> k"
    then have "map_of (AList.update k v d) (fst s) = map_of d (fst s)"
      by (simp add: update_conv')
    then have "field_matches (AList.update k v d) s = field_matches d s"
      by (rule field_matches_cong)
    with upd s(1) show "field_matches d s" by (simp add: list_all_iff)
  qed
  have "\<not> py_eq old v"
  proof
    assume "py_eq old v"
    with has have k: "field_matches d (k, Plain, Inr v)" by (simp add: scalar_equal_def)
    have "field_matches d s" if "s \<in> set ss" for s
    proof (cases "fst s = k")
      case True
      then have "(k, snd s) \<in> set ss" using that by (metis prod.collapse)
      with mem dist have "snd s = (Plain, Inr v)"
        using eq_key_imp_eq_value by metis
      with True have "s = (k, Plain, Inr v)" by (metis prod.collapse)
      with k show ?thesis by simp
    next
      case False
      with rest that show ?thesis by simp
    qed
    with some show False by (simp add: list_all_iff)
  qed
  then have "differs Plain old v = Inr True" by simp
  with mem dist has show ?thesis using rest by (rule exec_stmts_one_differs)
qed

lemma client_satisfies_stmts:
  "map_of c ''quota'' = Some r \<Longrightarrow> py_int r = Inr n \<Longrightarrow>
   list_all (field_matches (AList.update ''quota'' (PInt n) c)) (client_stmts p) \<longleftrightarrow>
     client_satisfies p c"
  unfolding client_stmts_matches client_satisfies_def quota_equal_def by auto

lemma client_scalars_stmts:
  "(k, v) \<in> set (client_scalars p) \<Longrightarrow> (k, Plain, Inr v) \<in> set (client_stmts p)"
  by (auto simp: client_scalars_def client_stmts_def)

lemma job_scalars_stmts:
  "map_of cl ''id'' = Some ci \<Longrightarrow> (k, v) \<in> set (job_scalars q ci) \<Longrightarrow>
   (k, Plain, Inr v) \<in> set (job_stmts q cl)"
  by (auto simp: job_scalars_def job_stmts_def getitem_def)

lemma client_sole_difference:
  assumes kv: "(k, v) \<in> set (client_scalars p)" and has: "has_field c k"
    and q: "map_of c ''quota'' = Some r" "py_int r = Inr n"
    and no: "\<not> client_satisfies p c" and yes: "client_satisfies p (AList.update k v c)"
  shows "client_diff p c = Inr (AList.update k v (AList.update ''quota'' (PInt n) c), True)"
proof -
  let ?d = "AList.update ''quota'' (PInt n) c"
  from has obtain old where old: "map_of ?d k = Some old"
    by (cases "k = ''quota''") (auto simp: has_field_def update_conv')
  have some: "\<not> list_all (field_matches ?d) (client_stmts p)"
    using no by (simp add: client_satisfies_stmts [OF q])
  from yes obtain r1 n1 where
    q1: "map_of (AList.update k v c) ''quota'' = Some r1" "py_int r1 = Inr n1"
    by (auto simp: client_satisfies_def quota_equal_def split: option.splits)
  have yes1: "list_all (field_matches (AList.update ''quota'' (PInt n1) (AList.update k v c)))
      (client_stmts p)"
    using yes by (simp add: client_satisfies_stmts [OF q1])
  have "map_of (AList.update k v ?d) =
      map_of (AList.update ''quota'' (PInt n1) (AList.update k v c))"
  proof (cases "k = ''quota''")
    case True
    with kv have v: "v = PInt (quota p)" by (auto simp: client_scalars_def)
    with True q1 have "n1 = quota p" by (auto simp: update_conv')
    with True v show ?thesis by (simp add: update_conv')
  next
    case False
    with q q1 have "n1 = n" by (simp add: update_conv')
    with False show ?thesis by (auto simp: update_conv' fun_upd_twist)
  qed
  then have "list_all (field_matches (AList.update k v ?d)) (client_stmts p) =
      list_all (field_matches (AList.update ''quota'' (PInt n1) (AList.update k v c)))
        (client_stmts p)"
    by (rule list_all_field_matches_map_of)
  with yes1 have upd: "list_all (field_matches (AList.update k v ?d)) (client_stmts p)"
    by simp
  from client_scalars_stmts [OF kv] client_stmts_distinct old some upd
  have "exec_stmts (client_stmts p) (?d, False) = Inr (AList.update k v ?d, True)"
    by (rule exec_stmts_sole_difference)
  then show ?thesis by (simp add: client_diff_coerce [OF q])
qed

lemma job_sole_difference:
  assumes id: "map_of cl ''id'' = Some ci"
    and kv: "(k, v) \<in> set (job_scalars q ci)" and has: "has_field j k"
    and no: "\<not> job_matches q cl j" and yes: "job_matches q cl (AList.update k v j)"
  shows "job_diff q cl j = Inr (AList.update k v j, True)"
proof -
  from has obtain old where old: "map_of j k = Some old"
    by (auto simp: has_field_def)
  from no have some: "\<not> list_all (field_matches j) (job_stmts q cl)"
    by (simp add: job_stmts_matches)
  from yes have upd: "list_all (field_matches (AList.update k v j)) (job_stmts q cl)"
    by (simp add: job_stmts_matches)
  from job_scalars_stmts [OF id kv] job_stmts_distinct old some upd
  show ?thesis unfolding job_diff_def by (rule exec_stmts_sole_difference)
qed

lemma stale_client_facts:
  "(''description'', PStr ''Description for Name1'') \<in> set (client_scalars example_client)"
  "has_field stale_client ''description''"
  "map_of stale_client ''quota'' = Some (PStr ''20000'')"
  "py_int (PStr ''20000'') = Inr 20000"
  "client_satisfies example_client
     (AList.update ''description'' (PStr ''Description for Name1'') stale_client)"
  by (simp_all add: client_scalars_def has_field_def client_satisfies_def stale_client_def
        remote_client_def example_client_def value_defs)

lemma stale_int_client_facts:
  "map_of stale_int_client ''id'' = Some (PInt 7)"
  "has_field stale_int_client ''description''"
  "map_of stale_int_client ''quota'' = Some (PInt 20000)"
  "\<not> client_satisfies example_client stale_int_client"
  "client_satisfies example_client
     (AList.update ''description'' (PStr ''Description for Name1'') stale_int_client)"
  by (simp_all add: has_field_def client_satisfies_def stale_int_client_def stale_client_def
        remote_client_def example_client_def value_defs)

lemma sentinel_job_facts:
  "(''exclude'', PNone) \<in> set (job_scalars example_job (PInt 7))"
  "has_field sentinel_job ''exclude''"
  "job_matches example_job remote_client (AList.update ''exclude'' PNone sentinel_job)"
  by (simp_all add: job_scalars_def has_field_def job_matches_def sentinel_job_def
        remote_job_def remote_client_def example_job_def value_defs)


text \<open>
  Claim C8. Let a present-reconciliation find a stored resource that does not satisfy
  the desired specification, but would with its field \<open>k\<close> holding the desired value
  \<open>v\<close>, where \<open>k\<close> is a field compared by value: \<open>k\<close> is the one field that differs. Then
  the run sends one update, to the identifier of the stored resource, whose payload is
  the fetched resource with the field \<open>k\<close> replaced by \<open>v\<close>. The Client module reads the
  fetched quota as an integer before it compares (claim C10), so its payload holds the
  quota as that integer \<open>n\<close>: the value that the comparison of the quota sees in the
  remote state, and the fetched resource itself wherever the service serialises the
  quota as an integer.
\<close>

theorem one_changed_field_payload:
  "(state p = ''present'' \<and> observes ClientsJson srv (name p) cs (Some c) \<and>
    map_of c ''id'' = Some i \<and> (k, v) \<in> set (client_scalars p) \<and> has_field c k \<and>
    \<not> client_satisfies p c \<and> client_satisfies p (AList.update k v c) \<and>
    map_of c ''quota'' = Some r \<and> py_int r = Inr n \<longrightarrow>
      snd (client_run_module srv p) =
        [GET ClientsJson (name p),
         PUT (ClientJson i) (AList.update k v (AList.update ''quota'' (PInt n) c))] \<and>
      (r = PInt n \<longrightarrow>
         AList.update k v (AList.update ''quota'' (PInt n) c) = AList.update k v c)) \<and>
   (job_state q = ''present'' \<and> observes ClientsJson srv (client_name q) cls (Some cl) \<and>
    map_of cl ''id'' = Some ci \<and> observes JobsJson srv (job_name q) js (Some j) \<and>
    map_of j ''id'' = Some i \<and> (k, v) \<in> set (job_scalars q ci) \<and> has_field j k \<and>
    \<not> job_matches q cl j \<and> job_matches q cl (AList.update k v j) \<longrightarrow>
      snd (job_run_module srv q) =
        [GET ClientsJson (client_name q), GET JobsJson (job_name q),
         PUT (JobJson i) (AList.update k v j)])"
proof (intro conjI impI; elim conjE)
  assume a: "state p = ''present''" "observes ClientsJson srv (name p) cs (Some c)"
    and i: "map_of c ''id'' = Some i"
    and kv: "(k, v) \<in> set (client_scalars p)" "has_field c k"
    and sat: "\<not> client_satisfies p c" "client_satisfies p (AList.update k v c)"
    and q: "map_of c ''quota'' = Some r" "py_int r = Inr n"
  from kv q sat have d: "client_diff p c =
      Inr (AList.update k v (AList.update ''quota'' (PInt n) c), True)"
    by (rule client_sole_difference)
  from d i have "map_of (AList.update k v (AList.update ''quota'' (PInt n) c)) ''id'' = Some i"
    by (rule client_diff_changed_id)
  then show "snd (client_run_module srv p) =
      [GET ClientsJson (name p),
       PUT (ClientJson i) (AList.update k v (AList.update ''quota'' (PInt n) c))]"
    by (simp add: client_run_diff [OF a(1) observes_client [OF a(2)] d]
          client_apply_update_trace)
  show "AList.update k v (AList.update ''quota'' (PInt n) c) = AList.update k v c"
    if "r = PInt n"
    using q(1) that by (simp add: update_quota_same)
next
  assume a: "job_state q = ''present''"
    "observes ClientsJson srv (client_name q) cls (Some cl)"
    and ci: "map_of cl ''id'' = Some ci"
    and o: "observes JobsJson srv (job_name q) js (Some j)"
    and i: "map_of j ''id'' = Some i"
    and kv: "(k, v) \<in> set (job_scalars q ci)" "has_field j k"
    and sat: "\<not> job_matches q cl j" "job_matches q cl (AList.update k v j)"
  from ci kv sat have d: "job_diff q cl j = Inr (AList.update k v j, True)"
    by (rule job_sole_difference)
  from d i have "map_of (AList.update k v j) ''id'' = Some i"
    by (rule job_diff_changed_id)
  then show "snd (job_run_module srv q) =
      [GET ClientsJson (client_name q), GET JobsJson (job_name q),
       PUT (JobJson i) (AList.update k v j)]"
    by (simp add: job_run_diff [OF a(1) observes_client [OF a(2)] observes_job [OF o] d]
          job_apply_update_trace)
qed

theorem one_changed_field_payload_witness:
  "(''description'', PStr ''Description for Name1'') \<in> set (client_scalars example_client) \<and>
   map_of stale_client ''quota'' = Some (PStr ''20000'') \<and>
   py_int (PStr ''20000'') = Inr 20000 \<and>
   client_satisfies example_client
     (AList.update ''description'' (PStr ''Description for Name1'') stale_client) \<and>
   snd (client_run_module (example_srv [stale_client] [] (written 7)) example_client) =
     [GET ClientsJson ''Name1'',
      PUT (ClientJson (PInt 7))
        (AList.update ''description'' (PStr ''Description for Name1'')
           (AList.update ''quota'' (PInt 20000) stale_client))] \<and>
   map_of stale_int_client ''quota'' = Some (PInt 20000) \<and>
   snd (client_run_module (example_srv [stale_int_client] [] (written 7)) example_client) =
     [GET ClientsJson ''Name1'',
      PUT (ClientJson (PInt 7))
        (AList.update ''description'' (PStr ''Description for Name1'') stale_int_client)] \<and>
   (''exclude'', PNone) \<in> set (job_scalars example_job (PInt 7)) \<and>
   job_matches example_job remote_client (AList.update ''exclude'' PNone sentinel_job) \<and>
   snd (job_run_module (example_srv [remote_client] [sentinel_job] (written 3)) example_job) =
     [GET ClientsJson ''Name1'', GET JobsJson ''job1'',
      PUT (JobJson (PInt 3)) (AList.update ''exclude'' PNone sentinel_job)]"
proof -
  have 1: "snd (client_run_module (example_srv [stale_client] [] (written 7)) example_client) =
     [GET ClientsJson ''Name1'',
      PUT (ClientJson (PInt 7))
        (AList.update ''description'' (PStr ''Description for Name1'')
           (AList.update ''quota'' (PInt 20000) stale_client))]"
    using one_changed_field_payload [where p = example_client
        and srv = "example_srv [stale_client] [] (written 7)" and cs = "[stale_client]"
        and c = stale_client and i = "PInt 7" and k = "''description''"
        and v = "PStr ''Description for Name1''" and r = "PStr ''20000''" and n = 20000,
        THEN conjunct1]
      stale_client_facts stale_client_differs stale_client_id
    by (simp add: example_names observes_example)
  have 2: "snd (client_run_module (example_srv [stale_int_client] [] (written 7))
       example_client) =
     [GET ClientsJson ''Name1'',
      PUT (ClientJson (PInt 7))
        (AList.update ''description'' (PStr ''Description for Name1'') stale_int_client)]"
    using one_changed_field_payload [where p = example_client
        and srv = "example_srv [stale_int_client] [] (written 7)" and cs = "[stale_int_client]"
        and c = stale_int_client and i = "PInt 7" and k = "''description''"
        and v = "PStr ''Description for Name1''" and r = "PInt 20000" and n = 20000,
        THEN conjunct1]
      stale_client_facts(1) stale_int_client_facts
    by (simp add: example_names observes_example)
  have 3: "snd (job_run_module (example_srv [remote_client] [sentinel_job] (written 3))
       example_job) =
     [GET ClientsJson ''Name1'', GET JobsJson ''job1'',
      PUT (JobJson (PInt 3)) (AList.update ''exclude'' PNone sentinel_job)]"
    using one_changed_field_payload [where q = example_job
        and srv = "example_srv [remote_client] [sentinel_job] (written 3)"
        and cls = "[remote_client]" and cl = remote_client and ci = "PInt 7"
        and js = "[sentinel_job]" and j = sentinel_job and i = "PInt 3"
        and k = "''exclude''" and v = PNone, THEN conjunct2]
      sentinel_job_facts sentinel_job_differs remote_ids
    by (simp add: example_names observes_example)
  from 1 2 3 stale_client_facts stale_int_client_facts(3) sentinel_job_facts
  show ?thesis by simp
qed

subsection \<open>A single fuzzy match\<close>




end
